theory Spec2Isabelle
  imports Complex_Main "HOL-Library.AList" "HOL-Library.Char_ord" "HOL-Library.List_Lexorder"
begin

section \<open>Data model (models.py)\<close>

text \<open>
  Pydantic models become records. Field names carry a short prefix where two models of
  the source share a field name: \<open>Validators.DataItem.Validator\<close> keeps \<open>pubkey\<close>,
  \<open>effective_balance\<close>, \<open>slashed\<close>; \<open>ProposerDuties.Data\<close> is \<open>duty_*\<close>;
  \<open>RelayBuilderValidator\<close> is \<open>rbv_*\<close> with \<open>entry.message.pubkey\<close> flattened;
  \<open>ProposerPayloadDelivered\<close> is \<open>ppd_*\<close>; the two reward rows are \<open>ideal_*\<close> and
  \<open>total_*\<close>.

  A Python \<open>dict\<close> is an association list read with \<open>map_of\<close> (a missing key is
  \<open>None\<close>, which the functions turn into \<open>KeyError\<close>); \<open>len(d) == 0\<close> is \<open>d = []\<close>.
  A Python \<open>set\<close> is a list without duplicates, in the order in which the set is iterated.
  Python's unbounded \<open>int\<close> is \<open>int\<close>.
\<close>

record Validator =
  pubkey :: string
  effective_balance :: int
  slashed :: bool

record ProposerDuty =
  duty_pubkey :: string
  duty_validator_index :: int
  duty_slot :: int

record RelayBuilderValidator =
  rbv_slot :: int
  rbv_validator_index :: int
  rbv_pubkey :: string

record ProposerPayloadDelivered =
  ppd_slot :: int
  ppd_value :: int
  ppd_proposer_pubkey :: string

record IdealReward =
  ideal_effective_balance :: int
  ideal_source :: int
  ideal_target :: int
  ideal_head :: int

record TotalReward =
  total_validator_index :: int
  total_source :: int
  total_target :: int
  total_head :: int

record Rewards_Data =
  ideal_rewards :: "IdealReward list"
  total_rewards :: "TotalReward list"

datatype BeaconType = LIGHTHOUSE | NIMBUS | OLD_PRYSM | OLD_TEKU | OTHER

text \<open>Exceptions of the source, as values.\<close>

datatype error =
  KeyError | ValueError | AttributeError | TypeError | AssertionError | OverflowError
  | OSError | ConnectionError | RetryError | HTTPError | BadParameter

type_synonym labels = "(string \<times> string) list"
type_synonym labels_dict = "(string \<times> labels) list"
type_synonym index_to_validator = "(int \<times> Validator) list"

text \<open>
  Modelled from the spec: \<open>LimitedDict\<close> (utils.py) is the bounded epoch window, an
  ordered mapping from epoch numbers to \<open>{index \<rightarrow> validator}\<close> snapshots. The probes only
  read it (\<open>e in d\<close> and \<open>d[e]\<close>), so it is an association list read with \<open>map_of\<close>.
\<close>

type_synonym LimitedDict = "(int \<times> index_to_validator) list"

text \<open>
  A labelled Prometheus counter is the list of its increments, each with the label values
  of the series and the amount passed to \<open>inc\<close>; a module-level \<open>Counter | None\<close> is an
  option of it. \<open>Counter.inc\<close> refuses a negative amount with ValueError; the functions
  that can pass one have that branch.
\<close>

type_synonym counter = "(labels \<times> real) list"

text \<open>
  A suboptimal rate is the float \<open>1 - sum(are_ideal) / len(are_ideal)\<close>. The float is not
  computed: a rate is the pair of the two integers, the number of ideal validators and the
  number of validators.
\<close>

type_synonym rate = "nat \<times> nat"

text \<open>Lines printed to the console and chat messages, by their content.\<close>

datatype message =
  MissedAttestation "string list" int int
  | DoubleMissedAttestation "string list" int int
  | UnknownBuilder
  | CannotContactRelay string
  | GoingToPropose string int int
  | NotRegistered string int int
  | NotIdealRewards string "string list" int int rate

text \<open>HTTP requests sent to the beacon node and to the relays.\<close>

datatype request =
  LivenessRequest BeaconType int "int list"
  | RewardsRequest BeaconType int "int list option"
  | ProposerDutiesRequest int
  | PayloadDeliveredRequest string int
  | BuilderValidatorsRequest string

text \<open>
  The eleven aggregate reward metrics exist twice in rewards.py, once for the network
  (\<open>metric_net_*\<close>) and once for the watched validators (\<open>metric_our_*\<close>). A gauge holds
  the rate it was last set to, if any; a counter without labels is the list of the amounts
  passed to \<open>inc\<close>, which are integers here.
\<close>

record aggregate_metrics =
  suboptimal_sources_rate_gauge :: "rate option"
  suboptimal_targets_rate_gauge :: "rate option"
  suboptimal_heads_rate_gauge :: "rate option"
  ideal_sources_count :: "int list"
  ideal_targets_count :: "int list"
  ideal_heads_count :: "int list"
  actual_pos_sources_count :: "int list"
  actual_neg_sources_count :: "int list"
  actual_pos_targets_count :: "int list"
  actual_neg_targets_count :: "int list"
  actual_heads_count :: "int list"

text \<open>
  The process state the probes touch: the module-level metrics, the console, the chat
  channel and the log of requests sent.
\<close>

record state =
  metric_missed_attestations_count :: int
  metric_double_missed_attestations_count :: int
  missed_attestations_per_validator_count :: "counter option"
  double_missed_attestations_per_validator_count :: "counter option"
  metric_bad_relay_count :: nat
  our_mev_boost_reward_per_validator_count :: "counter option"
  future_block_proposals_count :: int
  metric_net :: aggregate_metrics
  metric_our :: aggregate_metrics
  our_ideal_sources_per_validator_count :: "counter option"
  our_ideal_targets_per_validator_count :: "counter option"
  our_ideal_heads_per_validator_count :: "counter option"
  our_actual_pos_sources_per_validator_count :: "counter option"
  our_actual_neg_sources_per_validator_count :: "counter option"
  our_actual_pos_targets_per_validator_count :: "counter option"
  our_actual_neg_targets_per_validator_count :: "counter option"
  our_actual_heads_per_validator_count :: "counter option"
  our_ideal_attestations_reward_per_validator_count :: "counter option"
  our_actual_pos_attestations_reward_per_validator_count :: "counter option"
  our_actual_neg_attestations_reward_per_validator_count :: "counter option"
  console :: "message list"
  slack_sent :: "message list"
  requests :: "request list"

text \<open>
  The beacon client (beacon.py) is outside the sources at hand: its three calls used
  here are parameters, each returning a value or raising.
\<close>

record Beacon =
  get_validators_liveness :: "BeaconType \<Rightarrow> int \<Rightarrow> int list \<Rightarrow> error + (int \<times> bool) list"
  get_rewards :: "BeaconType \<Rightarrow> int \<Rightarrow> int list option \<Rightarrow> error + Rewards_Data"
  get_proposer_duties :: "int \<Rightarrow> error + ProposerDuty list"

section \<open>Dictionary reads\<close>

text \<open>\<open>[d[k] for k in ks]\<close>: every key is looked up, a missing one raises KeyError.\<close>

fun lookup_all :: "('k \<times> 'v) list \<Rightarrow> 'k list \<Rightarrow> error + 'v list" where
  "lookup_all d [] = Inr []"
| "lookup_all d (k # ks) =
     (case map_of d k of
        None \<Rightarrow> Inl KeyError
      | Some v \<Rightarrow> (case lookup_all d ks of Inl e \<Rightarrow> Inl e | Inr vs \<Rightarrow> Inr (v # vs)))"

text \<open>\<open>for x in xs: counter.labels(**labels[x]).inc()\<close> adds one increment per element.\<close>

definition inc_each :: "labels list \<Rightarrow> counter \<Rightarrow> counter" where
  "inc_each ls c = c @ map (\<lambda>l. (l, 1)) ls"

text \<open>
  The guarded update both attestation probes end with:
  \<^verbatim>\<open>
  if counter is not None and len(our_labels) > 0:
      for pubkey in pubkeys:
          labels = our_labels[pubkey]
          counter.labels(**labels).inc()
  \<close>
\<close>

definition inc_per_validator ::
  "counter option \<Rightarrow> labels_dict \<Rightarrow> string list \<Rightarrow> error + counter option" where
  "inc_per_validator cnt our_labels pubkeys =
     (case cnt of
        None \<Rightarrow> Inr None
      | Some c \<Rightarrow>
          (if our_labels \<noteq> [] then
             (case lookup_all our_labels pubkeys of
                Inl e \<Rightarrow> Inl e
              | Inr ls \<Rightarrow> Inr (Some (inc_each ls c)))
           else Inr (Some c)))"

section \<open>Missed attestations (missed\_attestations.py)\<close>

text \<open>
  \<open>index_to_validator\<close> of \<open>process_missed_attestations\<close>: the snapshot of epoch - 1 if
  the window holds it, else the one of the epoch itself.
\<close>

definition window_for_missed :: "LimitedDict \<Rightarrow> int \<Rightarrow> error + index_to_validator" where
  "window_for_missed epoch_to_index_to_validator_index epoch =
     (case (if map_of epoch_to_index_to_validator_index (epoch - 1) \<noteq> None
            then map_of epoch_to_index_to_validator_index (epoch - 1)
            else map_of epoch_to_index_to_validator_index epoch) of
        None \<Rightarrow> Inl KeyError
      | Some index_to_validator \<Rightarrow> Inr index_to_validator)"

text \<open>The part of \<open>process_missed_attestations\<close> after the liveness response is in.\<close>

definition report_missed ::
  "index_to_validator \<Rightarrow> int list \<Rightarrow> int \<Rightarrow> labels_dict \<Rightarrow> state
     \<Rightarrow> error + (int list \<times> state)" where
  "report_missed index_to_validator dead_indexes epoch our_labels st =
     (let st2 = st\<lparr>metric_missed_attestations_count := int (length dead_indexes)\<rparr>
      in
      if length dead_indexes = 0 then Inr ([], st2)
      else
        (case lookup_all index_to_validator dead_indexes of
           Inl e \<Rightarrow> Inl e
         | Inr validators \<Rightarrow>
             (let pubkeys = map pubkey validators;
                  first_pubkeys = take 5 pubkeys;
                  short_first_pubkeys = map (take 10) first_pubkeys;
                  st3 = st2\<lparr>console := console st2
                          @ [MissedAttestation short_first_pubkeys
                               (int (length dead_indexes) - int (length short_first_pubkeys))
                               (epoch - 1)]\<rparr>
              in
              (case inc_per_validator (missed_attestations_per_validator_count st3)
                      our_labels pubkeys of
                 Inl e \<Rightarrow> Inl e
               | Inr cnt \<Rightarrow>
                   Inr (dead_indexes,
                        st3\<lparr>missed_attestations_per_validator_count := cnt\<rparr>)))))"

definition process_missed_attestations ::
  "Beacon \<Rightarrow> BeaconType \<Rightarrow> LimitedDict \<Rightarrow> int \<Rightarrow> labels_dict \<Rightarrow> state
     \<Rightarrow> error + (int list \<times> state)" where
  "process_missed_attestations beacon beacon_type epoch_to_index_to_validator_index epoch
       our_labels st =
     (if epoch < 1 then Inr ([], st)
      else
        (case window_for_missed epoch_to_index_to_validator_index epoch of
           Inl e \<Rightarrow> Inl e
         | Inr index_to_validator \<Rightarrow>
             (let validators_index = remdups (map fst index_to_validator);
                  st1 = st\<lparr>requests := requests st
                            @ [LivenessRequest beacon_type (epoch - 1) validators_index]\<rparr>
              in
              (case get_validators_liveness beacon beacon_type (epoch - 1) validators_index of
                 Inl e \<Rightarrow> Inl e
               | Inr validators_liveness \<Rightarrow>
                   report_missed index_to_validator
                     (remdups (map fst (filter (\<lambda>(index, liveness). \<not> liveness)
                                          validators_liveness)))
                     epoch our_labels st1))))"

text \<open>
  \<open>slack\<close> is \<open>Slack | None\<close>: the flag says whether a chat channel is configured; a sent
  message is appended to \<open>slack_sent\<close>.
\<close>

definition process_double_missed_attestations ::
  "int list \<Rightarrow> int list \<Rightarrow> LimitedDict \<Rightarrow> int \<Rightarrow> bool \<Rightarrow> labels_dict \<Rightarrow> state
     \<Rightarrow> error + (int list \<times> state)" where
  "process_double_missed_attestations dead_indexes previous_dead_indexes
       epoch_to_index_to_validator_index epoch slack our_labels st =
     (if epoch < 2 then Inr ([], st)
      else
        (let double_dead_indexes = filter (\<lambda>i. i \<in> set previous_dead_indexes) dead_indexes;
             st1 = st\<lparr>metric_double_missed_attestations_count :=
                        int (length double_dead_indexes)\<rparr>
         in
         if length double_dead_indexes = 0 then Inr ([], st1)
         else
           (case map_of epoch_to_index_to_validator_index (epoch - 1) of
              None \<Rightarrow> Inl KeyError
            | Some index_to_validator \<Rightarrow>
                (case lookup_all index_to_validator double_dead_indexes of
                   Inl e \<Rightarrow> Inl e
                 | Inr validators \<Rightarrow>
                     (let pubkeys = map pubkey validators;
                          first_pubkeys = take 5 pubkeys;
                          short_first_pubkeys = map (take 10) first_pubkeys;
                          msg = DoubleMissedAttestation short_first_pubkeys
                                  (int (length double_dead_indexes)
                                     - int (length short_first_pubkeys))
                                  (epoch - 2);
                          st2 = st1\<lparr>console := console st1 @ [msg]\<rparr>;
                          st3 = (if slack then st2\<lparr>slack_sent := slack_sent st2 @ [msg]\<rparr>
                                 else st2)
                      in
                      (case inc_per_validator
                              (double_missed_attestations_per_validator_count st3)
                              our_labels pubkeys of
                         Inl e \<Rightarrow> Inl e
                       | Inr cnt \<Rightarrow>
                           Inr (double_dead_indexes,
                                st3\<lparr>double_missed_attestations_per_validator_count :=
                                       cnt\<rparr>)))))))"

section \<open>Relays (relays.py)\<close>

definition MAX_TRIALS :: nat where
  "MAX_TRIALS = 5"

definition RELAY_KEY :: string where
  "RELAY_KEY = ''mev_relay''"

definition RELAY_MAPPING :: "(string \<times> string) list" where
  "RELAY_MAPPING =
     [(''https://0xa1559ace749633b997cb3fdacffb890aeebdb0f5a3b6aaa7eeeaf1a38af0a8fe88b9e4b1f61f236d2e64d95733327a62@relay.ultrasound.money'',
         ''ultra sound''),
      (''https://0x8b5d2e73e2a3a55c6c87b8b6eb92e0149a125c852751db1422fa951e42a09b82c142c3ea98d0d9930b056a3bc9896b8f@bloxroute.max-profit.blxrbdn.com'',
         ''BloXroute [Max-Profit]''),
      (''https://0xac6e77dfe25ecd6110b8e780608cce0dab71fdd5ebea22a16c0205200f2f8e2e3ad3b71d3499c54ad14d6c21b41a37ae@boost-relay.flashbots.net'',
         ''flashbots''),
      (''https://0xa7ab7a996c8584251c8f925da3170bdfd6ebc75d50f5ddc4050a6fdc77f2a3b5fce2cc750d0865e05d7228af97d69561@agnostic-relay.net'',
         ''Agnostic Gnosis''),
      (''https://0xb0b07cd0abef743db4260b0ed50619cf6ad4d82064cb4fbec9d3ec530f7c5e6793d9f286c4e082c0244ffb9f2658fe88@bloxroute.regulated.blxrbdn.com'',
         ''BloXroute [Regulated]''),
      (''https://0xa15b52576bcbf1072f4a011c0f99f9fb6c66f3e1ff321f11f461d15e31b1cb359caa092c71bbded0bae5b5ea401aab7e@aestus.live'',
         ''Aestus'')]"

text \<open>
  The HTTP session (the requests library) is a parameter: what one GET gives, by URL,
  slot and number of the attempt. \<open>Raises e\<close> is an exception of \<open>get\<close> or of
  \<open>raise_for_status\<close>; \<open>Json js\<close> is a response whose body parses to the list \<open>js\<close>.
\<close>

datatype 'a response = Raises error | Json "'a list"

record Http =
  payload_delivered :: "string \<Rightarrow> int \<Rightarrow> nat \<Rightarrow> ProposerPayloadDelivered response"
  builder_validators_get :: "string \<Rightarrow> nat \<Rightarrow> RelayBuilderValidator response"

text \<open>
  The three private request methods. A \<open>ConnectionError\<close> is retried until
  \<open>trial_count >= MAX_TRIALS\<close>; any other exception leaves the method. The state is
  returned also when the method raises, since the requests were sent.
\<close>

function is_proposer_payload_delivered ::
  "Http \<Rightarrow> string \<Rightarrow> int \<Rightarrow> nat \<Rightarrow> state \<Rightarrow> (error + bool) \<times> state" where
  "is_proposer_payload_delivered http url slot trial_count st =
     (let st1 = st\<lparr>requests := requests st @ [PayloadDeliveredRequest url slot]\<rparr>
      in
      case payload_delivered http url slot trial_count of
        Raises e \<Rightarrow>
          (if e = ConnectionError then
             (if trial_count \<ge> MAX_TRIALS then (Inl ConnectionError, st1)
              else is_proposer_payload_delivered http url slot (trial_count + 1) st1)
           else (Inl e, st1))
      | Json proposer_payload_delivered_json \<Rightarrow>
          (if length proposer_payload_delivered_json \<le> 1
           then (Inr (length proposer_payload_delivered_json = 1), st1)
           else (Inl AssertionError, st1)))"
  by pat_completeness auto
termination
  by (relation "measure (\<lambda>(http, url, slot, trial_count, st). Suc MAX_TRIALS - trial_count)")
     auto

function proposer_payload_delivered ::
  "Http \<Rightarrow> string \<Rightarrow> int \<Rightarrow> nat \<Rightarrow> state
     \<Rightarrow> (error + ProposerPayloadDelivered option) \<times> state" where
  "proposer_payload_delivered http url slot trial_count st =
     (let st1 = st\<lparr>requests := requests st @ [PayloadDeliveredRequest url slot]\<rparr>
      in
      case payload_delivered http url slot trial_count of
        Raises e \<Rightarrow>
          (if e = ConnectionError then
             (if trial_count \<ge> MAX_TRIALS then (Inl ConnectionError, st1)
              else proposer_payload_delivered http url slot (trial_count + 1) st1)
           else (Inl e, st1))
      | Json proposer_payload_delivered_json \<Rightarrow>
          (if length proposer_payload_delivered_json \<le> 1
           then (Inr (if length proposer_payload_delivered_json = 1
                      then Some (proposer_payload_delivered_json ! 0) else None), st1)
           else (Inl AssertionError, st1)))"
  by pat_completeness auto
termination
  by (relation "measure (\<lambda>(http, url, slot, trial_count, st). Suc MAX_TRIALS - trial_count)")
     auto

function builder_validators ::
  "Http \<Rightarrow> string \<Rightarrow> nat \<Rightarrow> state \<Rightarrow> (error + RelayBuilderValidator list) \<times> state" where
  "builder_validators http url trial_count st =
     (let st1 = st\<lparr>requests := requests st @ [BuilderValidatorsRequest url]\<rparr>
      in
      case builder_validators_get http url trial_count of
        Raises e \<Rightarrow>
          (if e = ConnectionError then
             (if trial_count \<ge> MAX_TRIALS then (Inl ConnectionError, st1)
              else builder_validators http url (trial_count + 1) st1)
           else (Inl e, st1))
      | Json response_as_json \<Rightarrow> (Inr response_as_json, st1))"
  by pat_completeness auto
termination
  by (relation "measure (\<lambda>(http, url, trial_count, st). Suc MAX_TRIALS - trial_count)") auto

declare is_proposer_payload_delivered.simps [simp del]
declare proposer_payload_delivered.simps [simp del]
declare builder_validators.simps [simp del]

text \<open>
  \<open>any(self.__is_proposer_payload_delivered(relay_url, slot) for relay_url in urls)\<close>:
  the generator is consumed up to the first relay that answers True.
\<close>

fun any_delivered :: "Http \<Rightarrow> string list \<Rightarrow> int \<Rightarrow> state \<Rightarrow> error + (bool \<times> state)" where
  "any_delivered http [] slot st = Inr (False, st)"
| "any_delivered http (relay_url # rest) slot st =
     (case is_proposer_payload_delivered http relay_url slot 0 st of
        (Inl e, st1) \<Rightarrow> Inl e
      | (Inr b, st1) \<Rightarrow> (if b then Inr (True, st1) else any_delivered http rest slot st1))"

text \<open>
  \<open>payload.value / 10 ** 9\<close> is Python's true division of two ints: it gives a float, or
  raises OverflowError when the quotient is too large for one. Floats are not modelled, so
  the division is a parameter of the functions that use it, of which nothing is assumed.
\<close>

type_synonym true_division = "int \<Rightarrow> int \<Rightarrow> error + real"

text \<open>
  The body of \<open>for relay_url in self.__urls\<close> in the branch with labels. In the last
  statement \<open>our_mev_boost_reward_per_validator_count.labels\<close> is evaluated first
  (AttributeError on None), then the quotient, then \<open>inc\<close>, which raises ValueError on a
  negative amount.
\<close>

fun process_urls ::
  "true_division \<Rightarrow> Http \<Rightarrow> string list \<Rightarrow> int \<Rightarrow> labels_dict \<Rightarrow> bool \<Rightarrow> state
     \<Rightarrow> error + (bool \<times> state)" where
  "process_urls true_div http [] slot our_labels known_builder st = Inr (known_builder, st)"
| "process_urls true_div http (relay_url # rest) slot our_labels known_builder st =
     (case proposer_payload_delivered http relay_url slot 0 st of
        (Inl e, st1) \<Rightarrow> Inl e
      | (Inr None, st1) \<Rightarrow> process_urls true_div http rest slot our_labels known_builder st1
      | (Inr (Some payload), st1) \<Rightarrow>
          (case map_of our_labels (ppd_proposer_pubkey payload) of
             None \<Rightarrow> Inl KeyError
           | Some labels \<Rightarrow>
               (case map_of RELAY_MAPPING relay_url of
                  None \<Rightarrow> Inl KeyError
                | Some relay \<Rightarrow>
                    (case our_mev_boost_reward_per_validator_count st1 of
                       None \<Rightarrow> Inl AttributeError
                     | Some c \<Rightarrow>
                         (case true_div (ppd_value payload) (10 ^ 9) of
                            Inl e \<Rightarrow> Inl e
                          | Inr amount \<Rightarrow>
                              (if amount < 0 then Inl ValueError
                               else process_urls true_div http rest slot our_labels True
                                      (st1\<lparr>our_mev_boost_reward_per_validator_count :=
                                              Some (c @ [(AList.update RELAY_KEY relay labels,
                                                          amount)])\<rparr>)))))))"

definition unknown_builder :: "state \<Rightarrow> state" where
  "unknown_builder st =
     st\<lparr>metric_bad_relay_count := metric_bad_relay_count st + 1,
        console := console st @ [UnknownBuilder]\<rparr>"

definition process ::
  "true_division \<Rightarrow> Http \<Rightarrow> string list \<Rightarrow> int \<Rightarrow> labels_dict \<Rightarrow> state \<Rightarrow> error + state" where
  "process true_div http urls slot our_labels st =
     (if length urls = 0 then Inr st
      else if length our_labels = 0 then
        (case any_delivered http urls slot st of
           Inl e \<Rightarrow> Inl e
         | Inr (delivered, st1) \<Rightarrow>
             (if \<not> delivered then Inr (unknown_builder st1) else Inr st1))
      else
        (case process_urls true_div http urls slot our_labels False st of
           Inl e \<Rightarrow> Inl e
         | Inr (known_builder, st1) \<Rightarrow>
             (if \<not> known_builder then Inr (unknown_builder st1) else Inr st1)))"

text \<open>
  \<open>check_validator_registration_for_slots\<close>. The two local dictionaries are only read by
  key, so they are maps; \<open>registrations\<close> and \<open>pubkeys\<close> have the same keys, so
  \<open>pubkeys[item.slot]\<close> is defined wherever \<open>item.slot in registrations\<close> holds.
\<close>

definition mark_registered ::
  "(int \<rightharpoonup> string) \<Rightarrow> RelayBuilderValidator \<Rightarrow> (int \<rightharpoonup> bool) \<Rightarrow> (int \<rightharpoonup> bool)" where
  "mark_registered pubkeys item registrations =
     (if registrations (rbv_slot item) \<noteq> None
         \<and> Some (rbv_pubkey item) = pubkeys (rbv_slot item)
      then registrations(rbv_slot item \<mapsto> True)
      else registrations)"

fun check_urls ::
  "Http \<Rightarrow> string list \<Rightarrow> (int \<rightharpoonup> string) \<Rightarrow> (int \<rightharpoonup> bool) \<Rightarrow> state
     \<Rightarrow> error + ((int \<rightharpoonup> bool) \<times> state)" where
  "check_urls http [] pubkeys registrations st = Inr (registrations, st)"
| "check_urls http (relay_url # rest) pubkeys registrations st =
     (case builder_validators http relay_url 0 st of
        (Inl e, st1) \<Rightarrow>
          (if e = RetryError
           then check_urls http rest pubkeys registrations
                  (st1\<lparr>console := console st1 @ [CannotContactRelay relay_url]\<rparr>)
           else Inl e)
      | (Inr relay_data, st1) \<Rightarrow>
          check_urls http rest pubkeys
            (fold (mark_registered pubkeys) relay_data registrations) st1)"

definition check_validator_registration_for_slots ::
  "Http \<Rightarrow> string list \<Rightarrow> ProposerDuty list \<Rightarrow> state \<Rightarrow> error + (ProposerDuty list \<times> state)" where
  "check_validator_registration_for_slots http urls slot_proposals st =
     (if length slot_proposals = 0 then Inr ([], st)
      else
        (let registrations =
               fold (\<lambda>item r. r(duty_slot item \<mapsto> False)) slot_proposals Map.empty;
             pubkeys =
               fold (\<lambda>item p. p(duty_slot item \<mapsto> duty_pubkey item)) slot_proposals Map.empty
         in
         case check_urls http urls pubkeys registrations st of
           Inl e \<Rightarrow> Inl e
         | Inr (registrations', st1) \<Rightarrow>
             Inr (filter (\<lambda>item. registrations' (duty_slot item) = Some False) slot_proposals,
                  st1)))"

section \<open>Future block proposals (next\_blocks\_proposal.py)\<close>

text \<open>
  Modelled from the spec: the constant \<open>NB_SLOT_PER_EPOCH\<close> of utils.py, which the
  specification gives as 32.
\<close>

definition NB_SLOT_PER_EPOCH :: int where
  "NB_SLOT_PER_EPOCH = 32"

text \<open>
  The call of \<open>relays.check_validator_registration_for_slots\<close> at the end of the probe
  passes two arguments to a method that takes one: reaching it raises TypeError.
\<close>

definition process_future_blocks_proposal ::
  "Beacon \<Rightarrow> string list \<Rightarrow> int \<Rightarrow> bool \<Rightarrow> labels_dict \<Rightarrow> state \<Rightarrow> error + (int \<times> state)" where
  "process_future_blocks_proposal beacon our_pubkeys slot is_new_epoch our_labels st =
     (let epoch = slot div NB_SLOT_PER_EPOCH;
          st1 = st\<lparr>requests := requests st @ [ProposerDutiesRequest epoch]\<rparr>
      in
      case get_proposer_duties beacon epoch of
        Inl e \<Rightarrow> Inl e
      | Inr proposers_duties_current_epoch \<Rightarrow>
          (let st2 = st1\<lparr>requests := requests st1 @ [ProposerDutiesRequest (epoch + 1)]\<rparr>
           in
           case get_proposer_duties beacon (epoch + 1) of
             Inl e \<Rightarrow> Inl e
           | Inr proposers_duties_next_epoch \<Rightarrow>
               (let concatenated_data =
                      proposers_duties_current_epoch @ proposers_duties_next_epoch;
                    filtered =
                      filter (\<lambda>item. duty_pubkey item \<in> set our_pubkeys \<and> duty_slot item \<ge> slot)
                        concatenated_data;
                    st3 = st2\<lparr>future_block_proposals_count := int (length filtered)\<rparr>;
                    st4 = (if is_new_epoch
                           then st3\<lparr>console := console st3
                                  @ map (\<lambda>item. GoingToPropose (take 10 (duty_pubkey item))
                                                   (duty_slot item) (duty_slot item - slot))
                                      filtered\<rparr>
                           else st3)
                in
                if is_new_epoch \<and> length filtered > 0 \<and> length our_labels > 0 then
                  (let filtered_in_current_epoch =
                         filter (\<lambda>item. duty_pubkey item \<in> set our_pubkeys)
                           proposers_duties_current_epoch
                   in
                   if length filtered_in_current_epoch > 0 then Inl TypeError
                   else Inr (int (length filtered), st4))
                else Inr (int (length filtered), st4))))"

section \<open>Rewards (rewards.py)\<close>

type_synonym Reward = "int \<times> int \<times> int"
type_synonym AreIdeal = "bool \<times> bool \<times> bool"

text \<open>A dict comprehension: a later row with the same key replaces an earlier one.\<close>

definition dict_of :: "('k \<times> 'v) list \<Rightarrow> ('k \<rightharpoonup> 'v)" where
  "dict_of kvs = map_of (rev kvs)"

definition process_validator :: "string \<Rightarrow> Reward \<Rightarrow> Reward \<Rightarrow> string \<times> Reward \<times> Reward \<times> AreIdeal" where
  "process_validator pk ideal_reward actual_reward =
     (case ideal_reward of (ideal_source_reward, ideal_target_reward, ideal_head_reward) \<Rightarrow>
      case actual_reward of (actual_source_reward, actual_target_reward, actual_head_reward) \<Rightarrow>
        (pk, ideal_reward, actual_reward,
         (actual_source_reward = ideal_source_reward,
          actual_target_reward = ideal_target_reward,
          actual_head_reward = ideal_head_reward)))"

definition effective_balance_to_ideal_reward_of :: "Rewards_Data \<Rightarrow> (int \<rightharpoonup> Reward)" where
  "effective_balance_to_ideal_reward_of data =
     dict_of (map (\<lambda>reward. (ideal_effective_balance reward,
                              (ideal_source reward, ideal_target reward, ideal_head reward)))
                (ideal_rewards data))"

definition index_to_actual_reward_of :: "Rewards_Data \<Rightarrow> (int \<rightharpoonup> Reward)" where
  "index_to_actual_reward_of data =
     dict_of (map (\<lambda>reward. (total_validator_index reward,
                              (total_source reward, total_target reward, total_head reward)))
                (total_rewards data))"

text \<open>
  The list comprehension of the network pass: the \<open>if\<close> clause drops a validator whose
  index has no \<open>total_rewards\<close> row or whose effective balance has no \<open>ideal_rewards\<close>
  row, before the two rows are read.
\<close>

fun net_items ::
  "index_to_validator \<Rightarrow> (int \<rightharpoonup> Reward) \<Rightarrow> (int \<rightharpoonup> Reward)
     \<Rightarrow> (string \<times> Reward \<times> Reward \<times> AreIdeal) list" where
  "net_items [] effective_balance_to_ideal_reward index_to_actual_reward = []"
| "net_items ((index, validator) # rest) effective_balance_to_ideal_reward
       index_to_actual_reward =
     (case index_to_actual_reward index of
        None \<Rightarrow> net_items rest effective_balance_to_ideal_reward index_to_actual_reward
      | Some actual_reward \<Rightarrow>
          (case effective_balance_to_ideal_reward (effective_balance validator) of
             None \<Rightarrow> net_items rest effective_balance_to_ideal_reward index_to_actual_reward
           | Some ideal_reward \<Rightarrow>
               process_validator (pubkey validator) ideal_reward actual_reward
                 # net_items rest effective_balance_to_ideal_reward index_to_actual_reward))"

text \<open>
  The list comprehension of the watched-set pass: both rows are read for every validator,
  and a missing one raises KeyError.
\<close>

fun our_items ::
  "index_to_validator \<Rightarrow> (int \<rightharpoonup> Reward) \<Rightarrow> (int \<rightharpoonup> Reward)
     \<Rightarrow> error + (string \<times> Reward \<times> Reward \<times> AreIdeal) list" where
  "our_items [] effective_balance_to_ideal_reward index_to_actual_reward = Inr []"
| "our_items ((index, validator) # rest) effective_balance_to_ideal_reward
       index_to_actual_reward =
     (case effective_balance_to_ideal_reward (effective_balance validator) of
        None \<Rightarrow> Inl KeyError
      | Some ideal_reward \<Rightarrow>
          (case index_to_actual_reward index of
             None \<Rightarrow> Inl KeyError
           | Some actual_reward \<Rightarrow>
               (case our_items rest effective_balance_to_ideal_reward index_to_actual_reward of
                  Inl e \<Rightarrow> Inl e
                | Inr items \<Rightarrow>
                    Inr (process_validator (pubkey validator) ideal_reward actual_reward
                           # items))))"

text \<open>
  The snapshot both passes read: the one of epoch - 2, else of epoch - 1, else of the
  epoch itself.
\<close>

definition window_for_rewards :: "LimitedDict \<Rightarrow> int \<Rightarrow> error + index_to_validator" where
  "window_for_rewards epoch_to_index_to_validator epoch =
     (case (if map_of epoch_to_index_to_validator (epoch - 2) \<noteq> None
            then map_of epoch_to_index_to_validator (epoch - 2)
            else if map_of epoch_to_index_to_validator (epoch - 1) \<noteq> None
            then map_of epoch_to_index_to_validator (epoch - 1)
            else map_of epoch_to_index_to_validator epoch) of
        None \<Rightarrow> Inl KeyError
      | Some index_to_validator \<Rightarrow> Inr index_to_validator)"

definition suboptimal_rate :: "bool list \<Rightarrow> rate" where
  "suboptimal_rate are_ideal = (length (filter id are_ideal), length are_ideal)"

text \<open>
  From \<open>zip(*items)\<close> to the three gauges: the same statements in both passes, on the
  network metrics in the first and on ours in the second. Unpacking \<open>zip(*items)\<close> into
  four names raises ValueError when \<open>items\<close> is empty. The three ideal totals and the total
  of the actual heads are passed to \<open>inc\<close> as they are, which raises ValueError on a
  negative one; the totals of the actual sources and targets are passed as absolute values,
  to the positive or to the negative counter.
\<close>

definition emit_aggregates ::
  "(string \<times> Reward \<times> Reward \<times> AreIdeal) list \<Rightarrow> aggregate_metrics \<Rightarrow> error + aggregate_metrics"
  where
  "emit_aggregates items m =
     (if items = [] then Inl ValueError
      else
        (let ideal_rewards = map (\<lambda>(pk, ideal, actual, ideals). ideal) items;
             actual_rewards = map (\<lambda>(pk, ideal, actual, ideals). actual) items;
             ideals = map (\<lambda>(pk, ideal, actual, ideals). ideals) items;
             total_ideal_sources = sum_list (map (\<lambda>(s, t, h). s) ideal_rewards);
             total_ideal_targets = sum_list (map (\<lambda>(s, t, h). t) ideal_rewards);
             total_ideal_heads = sum_list (map (\<lambda>(s, t, h). h) ideal_rewards);
             total_actual_sources = sum_list (map (\<lambda>(s, t, h). s) actual_rewards);
             total_actual_targets = sum_list (map (\<lambda>(s, t, h). t) actual_rewards);
             total_actual_heads = sum_list (map (\<lambda>(s, t, h). h) actual_rewards)
         in
         if total_ideal_sources < 0 then Inl ValueError
         else if total_ideal_targets < 0 then Inl ValueError
         else if total_ideal_heads < 0 then Inl ValueError
         else if total_actual_heads < 0 then Inl ValueError
         else
           (let m1 = m\<lparr>ideal_sources_count := ideal_sources_count m @ [total_ideal_sources],
                       ideal_targets_count := ideal_targets_count m @ [total_ideal_targets],
                       ideal_heads_count := ideal_heads_count m @ [total_ideal_heads]\<rparr>;
                m2 = (if total_actual_sources \<ge> 0
                      then m1\<lparr>actual_pos_sources_count :=
                                actual_pos_sources_count m1 @ [\<bar>total_actual_sources\<bar>]\<rparr>
                      else m1\<lparr>actual_neg_sources_count :=
                                actual_neg_sources_count m1 @ [\<bar>total_actual_sources\<bar>]\<rparr>);
                m3 = (if total_actual_targets \<ge> 0
                      then m2\<lparr>actual_pos_targets_count :=
                                actual_pos_targets_count m2 @ [\<bar>total_actual_targets\<bar>]\<rparr>
                      else m2\<lparr>actual_neg_targets_count :=
                                actual_neg_targets_count m2 @ [\<bar>total_actual_targets\<bar>]\<rparr>);
                m4 = m3\<lparr>actual_heads_count := actual_heads_count m3 @ [total_actual_heads]\<rparr>
            in
            Inr (m4\<lparr>suboptimal_sources_rate_gauge :=
                        Some (suboptimal_rate (map (\<lambda>(s, t, h). s) ideals)),
                     suboptimal_targets_rate_gauge :=
                        Some (suboptimal_rate (map (\<lambda>(s, t, h). t) ideals)),
                     suboptimal_heads_rate_gauge :=
                        Some (suboptimal_rate (map (\<lambda>(s, t, h). h) ideals))\<rparr>))))"

text \<open>
  \<open>_validator_counters_update\<close>: the loop over \<open>zip(pub_keys, values)\<close>. A negative value
  goes to \<open>counter_neg\<close>, which six of the eight callers pass as None.
\<close>

fun counters_loop ::
  "labels_dict \<Rightarrow> (string \<times> int) list \<Rightarrow> counter \<Rightarrow> counter option
     \<Rightarrow> error + (counter \<times> counter option)" where
  "counters_loop labels_dict [] counter_pos counter_neg = Inr (counter_pos, counter_neg)"
| "counters_loop labels_dict ((pk, v) # rest) counter_pos counter_neg =
     (case map_of labels_dict pk of
        None \<Rightarrow> Inl KeyError
      | Some labels \<Rightarrow>
          (if v \<ge> 0
           then counters_loop labels_dict rest
                  (counter_pos @ [(labels, real_of_int \<bar>v\<bar>)]) counter_neg
           else
             (case counter_neg of
                None \<Rightarrow> Inl AttributeError
              | Some neg \<Rightarrow>
                  counters_loop labels_dict rest counter_pos
                    (Some (neg @ [(labels, real_of_int \<bar>v\<bar>)])))))"

definition validator_counters_update ::
  "counter option \<Rightarrow> counter option \<Rightarrow> string list \<Rightarrow> int list \<Rightarrow> labels_dict
     \<Rightarrow> error + (counter option \<times> counter option)" where
  "validator_counters_update counter_pos counter_neg pub_keys values labels_dict =
     (case counter_pos of
        None \<Rightarrow> Inr (counter_pos, counter_neg)
      | Some pos \<Rightarrow>
          (if length labels_dict = 0 then Inr (counter_pos, counter_neg)
           else
             (case counters_loop labels_dict (zip pub_keys values) pos counter_neg of
                Inl e \<Rightarrow> Inl e
              | Inr (pos', neg') \<Rightarrow> Inr (Some pos', neg'))))"

text \<open>\<open>_validator_summary_counters_update\<close>: the same loop on \<open>source + target + head\<close>.\<close>

definition validator_summary_counters_update ::
  "counter option \<Rightarrow> counter option \<Rightarrow> string list \<Rightarrow> int list \<Rightarrow> int list \<Rightarrow> int list
     \<Rightarrow> labels_dict \<Rightarrow> error + (counter option \<times> counter option)" where
  "validator_summary_counters_update counter_pos counter_neg pub_keys sources targets heads
       labels_dict =
     validator_counters_update counter_pos counter_neg pub_keys
       (map (\<lambda>(source, target, head). source + target + head)
          (zip sources (zip targets heads)))
       labels_dict"

text \<open>\<open>_log\<close>: the pubkeys that were not ideal, sorted, the first five shortened.\<close>

definition log_rewards ::
  "string list \<Rightarrow> bool list \<Rightarrow> rate \<Rightarrow> int \<Rightarrow> string \<Rightarrow> state \<Rightarrow> state" where
  "log_rewards pubkeys are_ideal rate epoch label st =
     (let not_perfect_pubkeys =
            remdups (map fst (filter (\<lambda>(pk, perfect). \<not> perfect) (zip pubkeys are_ideal)))
      in
      if length not_perfect_pubkeys > 0 then
        (let first_not_perfect_pubkeys = take 5 (sort not_perfect_pubkeys);
             short_first_not_perfect_pubkeys = map (take 10) first_not_perfect_pubkeys;
             diff = int (length not_perfect_pubkeys) - int (length first_not_perfect_pubkeys)
         in
         st\<lparr>console := console st
               @ [NotIdealRewards label short_first_not_perfect_pubkeys diff (epoch - 2) rate]\<rparr>)
      else st)"

text \<open>Sequencing of statements that may raise.\<close>

definition bindE :: "error + 'a \<Rightarrow> ('a \<Rightarrow> error + 'b) \<Rightarrow> error + 'b" where
  "bindE m f = (case m of Inl e \<Rightarrow> Inl e | Inr x \<Rightarrow> f x)"

text \<open>
  A call of \<open>_validator_counters_update\<close> on one module-level counter (with None as
  \<open>counter_neg\<close>) and on a positive/negative pair of them.
\<close>

definition update_pos ::
  "(state \<Rightarrow> counter option) \<Rightarrow> ((counter option \<Rightarrow> counter option) \<Rightarrow> state \<Rightarrow> state)
     \<Rightarrow> string list \<Rightarrow> int list \<Rightarrow> labels_dict \<Rightarrow> state \<Rightarrow> error + state" where
  "update_pos get_pos set_pos pub_keys values labels_dict st =
     (case validator_counters_update (get_pos st) None pub_keys values labels_dict of
        Inl e \<Rightarrow> Inl e
      | Inr (pos, neg) \<Rightarrow> Inr (set_pos (\<lambda>_. pos) st))"

definition update_pos_neg ::
  "(state \<Rightarrow> counter option) \<Rightarrow> ((counter option \<Rightarrow> counter option) \<Rightarrow> state \<Rightarrow> state)
     \<Rightarrow> (state \<Rightarrow> counter option) \<Rightarrow> ((counter option \<Rightarrow> counter option) \<Rightarrow> state \<Rightarrow> state)
     \<Rightarrow> string list \<Rightarrow> int list \<Rightarrow> labels_dict \<Rightarrow> state \<Rightarrow> error + state" where
  "update_pos_neg get_pos set_pos get_neg set_neg pub_keys values labels_dict st =
     (case validator_counters_update (get_pos st) (get_neg st) pub_keys values labels_dict of
        Inl e \<Rightarrow> Inl e
      | Inr (pos, neg) \<Rightarrow> Inr (set_neg (\<lambda>_. neg) (set_pos (\<lambda>_. pos) st)))"

text \<open>The watched-set pass, from \<open>our_index_to_validator\<close> to the three log lines.\<close>

definition our_pass ::
  "Beacon \<Rightarrow> BeaconType \<Rightarrow> int \<Rightarrow> LimitedDict \<Rightarrow> labels_dict \<Rightarrow> state \<Rightarrow> error + state" where
  "our_pass beacon beacon_type epoch our_epoch_to_index_to_validator our_labels st =
     bindE (window_for_rewards our_epoch_to_index_to_validator epoch)
       (\<lambda>our_index_to_validator.
          let our_indexes = remdups (map fst our_index_to_validator)
          in
          if length our_indexes = 0 then Inr st
          else
            (let st1 = st\<lparr>requests := requests st
                           @ [RewardsRequest beacon_type (epoch - 2) (Some our_indexes)]\<rparr>
             in
             bindE (get_rewards beacon beacon_type (epoch - 2) (Some our_indexes))
               (\<lambda>data.
                  bindE (our_items our_index_to_validator
                           (effective_balance_to_ideal_reward_of data)
                           (index_to_actual_reward_of data))
                    (\<lambda>items.
                       bindE (emit_aggregates items (metric_our st1))
                         (\<lambda>m.
                            let st2 = st1\<lparr>metric_our := m\<rparr>;
                                pubkeys = map (\<lambda>(pk, ideal, actual, ideals). pk) items;
                                ideal_rewards = map (\<lambda>(pk, ideal, actual, ideals). ideal) items;
                                actual_rewards = map (\<lambda>(pk, ideal, actual, ideals). actual) items;
                                ideals = map (\<lambda>(pk, ideal, actual, ideals). ideals) items;
                                ideal_sources = map (\<lambda>(s, t, h). s) ideal_rewards;
                                ideal_targets = map (\<lambda>(s, t, h). t) ideal_rewards;
                                ideal_heads = map (\<lambda>(s, t, h). h) ideal_rewards;
                                actual_sources = map (\<lambda>(s, t, h). s) actual_rewards;
                                actual_targets = map (\<lambda>(s, t, h). t) actual_rewards;
                                actual_heads = map (\<lambda>(s, t, h). h) actual_rewards;
                                are_sources_ideal = map (\<lambda>(s, t, h). s) ideals;
                                are_targets_ideal = map (\<lambda>(s, t, h). t) ideals;
                                are_heads_ideal = map (\<lambda>(s, t, h). h) ideals
                            in
                            bindE (update_pos our_ideal_sources_per_validator_count
                                     our_ideal_sources_per_validator_count_update
                                     pubkeys ideal_sources our_labels st2)
                           (\<lambda>st3.
                            bindE (update_pos our_ideal_targets_per_validator_count
                                     our_ideal_targets_per_validator_count_update
                                     pubkeys ideal_targets our_labels st3)
                           (\<lambda>st4.
                            bindE (update_pos our_ideal_heads_per_validator_count
                                     our_ideal_heads_per_validator_count_update
                                     pubkeys ideal_heads our_labels st4)
                           (\<lambda>st5.
                            bindE (update_pos_neg our_actual_pos_sources_per_validator_count
                                     our_actual_pos_sources_per_validator_count_update
                                     our_actual_neg_sources_per_validator_count
                                     our_actual_neg_sources_per_validator_count_update
                                     pubkeys actual_sources our_labels st5)
                           (\<lambda>st6.
                            bindE (update_pos_neg our_actual_pos_targets_per_validator_count
                                     our_actual_pos_targets_per_validator_count_update
                                     our_actual_neg_targets_per_validator_count
                                     our_actual_neg_targets_per_validator_count_update
                                     pubkeys actual_targets our_labels st6)
                           (\<lambda>st7.
                            bindE (update_pos our_actual_heads_per_validator_count
                                     our_actual_heads_per_validator_count_update
                                     pubkeys actual_heads our_labels st7)
                           (\<lambda>st8.
                            bindE (update_pos our_ideal_attestations_reward_per_validator_count
                                     our_ideal_attestations_reward_per_validator_count_update
                                     pubkeys
                                     (map (\<lambda>(source, target, head). source + target + head)
                                        (zip ideal_sources (zip ideal_targets ideal_heads)))
                                     our_labels st8)
                           (\<lambda>st9.
                            bindE (update_pos_neg
                                     our_actual_pos_attestations_reward_per_validator_count
                                     our_actual_pos_attestations_reward_per_validator_count_update
                                     our_actual_neg_attestations_reward_per_validator_count
                                     our_actual_neg_attestations_reward_per_validator_count_update
                                     pubkeys
                                     (map (\<lambda>(source, target, head). source + target + head)
                                        (zip actual_sources (zip actual_targets actual_heads)))
                                     our_labels st9)
                           (\<lambda>st10.
                            Inr (log_rewards pubkeys are_heads_ideal
                                   (suboptimal_rate are_heads_ideal) epoch ''head ''
                                   (log_rewards pubkeys are_targets_ideal
                                      (suboptimal_rate are_targets_ideal) epoch ''target''
                                      (log_rewards pubkeys are_sources_ideal
                                         (suboptimal_rate are_sources_ideal) epoch ''source''
                                         st10))))))))))))))))"

text \<open>\<open>process_rewards\<close>: the guard on the epoch, the network pass, the watched-set pass.\<close>

definition process_rewards ::
  "Beacon \<Rightarrow> BeaconType \<Rightarrow> int \<Rightarrow> LimitedDict \<Rightarrow> LimitedDict \<Rightarrow> labels_dict \<Rightarrow> state
     \<Rightarrow> error + state" where
  "process_rewards beacon beacon_type epoch net_epoch_to_index_to_validator
       our_epoch_to_index_to_validator our_labels st =
     (if epoch < 2 then Inr st
      else
        bindE (window_for_rewards net_epoch_to_index_to_validator epoch)
          (\<lambda>net_index_to_validator.
             if length net_index_to_validator = 0 then Inr st
             else
               (let st1 = st\<lparr>requests := requests st
                              @ [RewardsRequest beacon_type (epoch - 2) None]\<rparr>
                in
                bindE (get_rewards beacon beacon_type (epoch - 2) None)
                  (\<lambda>data.
                     bindE (emit_aggregates
                              (net_items net_index_to_validator
                                 (effective_balance_to_ideal_reward_of data)
                                 (index_to_actual_reward_of data))
                              (metric_net st1))
                       (\<lambda>m. our_pass beacon beacon_type epoch our_epoch_to_index_to_validator
                               our_labels (st1\<lparr>metric_net := m\<rparr>))))))"

section \<open>The slot loop (entrypoint.py)\<close>

text \<open>
  The loop of \<open>_handler\<close> calls one function after another, most of them from modules
  outside the sources at hand. The model keeps what the loop itself decides: which calls
  are made at a slot, in which order, under which conditions, what happens when one of
  them raises, and the loop variables these decisions read. What a call does is a
  parameter: whether it raises at a given slot, and for the calls whose result the loop
  branches on, that result (\<open>potential_block\<close>: the beacon has a block for the slot;
  \<open>is_our_validator\<close>: what \<open>process_missed_blocks_head\<close> returns; \<open>has_labels\<close>: the
  labels loaded at the slot are not empty; \<open>liveness_file\<close>: a liveness file is
  configured).
\<close>

text \<open>
  Modelled from the spec: the constants \<open>SLOT_FOR_MISSED_ATTESTATIONS_PROCESS\<close> and
  \<open>SLOT_FOR_REWARDS_PROCESS\<close> of utils.py, which the specification gives as 16.
\<close>

definition SLOT_FOR_MISSED_ATTESTATIONS_PROCESS :: int where
  "SLOT_FOR_MISSED_ATTESTATIONS_PROCESS = 16"

definition SLOT_FOR_REWARDS_PROCESS :: int where
  "SLOT_FOR_REWARDS_PROCESS = 16"

datatype call =
  WriteLivenessFile
  | GetOurPubkeys
  | GetOurLabels
  | InitPerValidatorCounters
  | GetStatusToIndexToValidator
  | ExitedValidatorsProcess
  | ActiveValidatorsPerValidatorGauge
  | SlashedValidatorsProcess
  | ExportEntryQueueDurSec
  | EmitEthUsdConversionRate
  | ProcessSyncCommittee
  | ProcessMissedAttestations
  | ProcessDoubleMissedAttestations
  | ProcessRewards
  | ProcessFutureBlocksProposal
  | ProcessMissedBlocksFinalized
  | GetPotentialBlock
  | ProcessSuboptimalAttestations
  | ProcessFeeRecipients
  | ProcessSyncCommitteeReward
  | ProcessMissedBlocksHead
  | RelaysProcess
  | ProcessBlockReward
  | StartHttpServer

record environment =
  raises :: "int \<Rightarrow> call \<Rightarrow> error option"
  potential_block :: "int \<Rightarrow> bool"
  is_our_validator :: "int \<Rightarrow> bool"
  has_labels :: "int \<Rightarrow> bool"
  liveness_file :: bool

record handler_state =
  previous_epoch :: "int option"
  last_missed_attestations_process_epoch :: "int option"
  last_rewards_process_epoch :: "int option"
  http_server_started :: bool
  calls :: "(int \<times> call) list"

definition initial_handler_state :: handler_state where
  "initial_handler_state =
     \<lparr>previous_epoch = None,
      last_missed_attestations_process_epoch = None,
      last_rewards_process_epoch = None,
      http_server_started = False,
      calls = []\<rparr>"

definition is_new_epoch_at :: "handler_state \<Rightarrow> int \<Rightarrow> bool" where
  "is_new_epoch_at hs slot =
     (previous_epoch hs = None \<or> previous_epoch hs \<noteq> Some (slot div NB_SLOT_PER_EPOCH))"

definition should_process_missed_attestations :: "handler_state \<Rightarrow> int \<Rightarrow> bool" where
  "should_process_missed_attestations hs slot =
     (slot mod NB_SLOT_PER_EPOCH \<ge> SLOT_FOR_MISSED_ATTESTATIONS_PROCESS
      \<and> (last_missed_attestations_process_epoch hs = None
         \<or> last_missed_attestations_process_epoch hs \<noteq> Some (slot div NB_SLOT_PER_EPOCH)))"

definition should_process_rewards :: "handler_state \<Rightarrow> int \<Rightarrow> bool" where
  "should_process_rewards hs slot =
     (slot mod NB_SLOT_PER_EPOCH \<ge> SLOT_FOR_REWARDS_PROCESS
      \<and> (last_rewards_process_epoch hs = None
         \<or> last_rewards_process_epoch hs \<noteq> Some (slot div NB_SLOT_PER_EPOCH)))"

text \<open>The calls of one iteration with \<open>slot >= 0\<close>, in the order of the source.\<close>

definition slot_calls :: "environment \<Rightarrow> handler_state \<Rightarrow> nat \<Rightarrow> int \<Rightarrow> call list" where
  "slot_calls env hs idx slot =
     (if is_new_epoch_at hs slot
      then [GetOurPubkeys, GetOurLabels, InitPerValidatorCounters,
            GetStatusToIndexToValidator, ExitedValidatorsProcess]
           @ (if has_labels env slot then [ActiveValidatorsPerValidatorGauge] else [])
           @ [SlashedValidatorsProcess, ExportEntryQueueDurSec, EmitEthUsdConversionRate,
              ProcessSyncCommittee]
      else [])
     @ (if should_process_missed_attestations hs slot
        then [ProcessMissedAttestations, ProcessDoubleMissedAttestations]
        else [])
     @ (if should_process_rewards hs slot then [ProcessRewards] else [])
     @ [ProcessFutureBlocksProposal, ProcessMissedBlocksFinalized, GetPotentialBlock]
     @ (if potential_block env slot
        then [ProcessSuboptimalAttestations, ProcessFeeRecipients]
        else [])
     @ [ProcessSyncCommitteeReward, ProcessMissedBlocksHead]
     @ (if is_our_validator env slot \<and> potential_block env slot
        then [RelaysProcess, ProcessBlockReward]
        else [])
     @ (if liveness_file env then [WriteLivenessFile] else [])
     @ (if idx = 0 then [StartHttpServer] else [])"

text \<open>
  The first call of the list that raises, with its exception. Nothing in the loop
  catches an exception, but for \<open>ValueError\<close> of the two loaders of the watched set,
  re-raised as \<open>typer.BadParameter\<close>.
\<close>

fun first_raise :: "environment \<Rightarrow> int \<Rightarrow> call list \<Rightarrow> error option" where
  "first_raise env slot [] = None"
| "first_raise env slot (c # cs) =
     (case raises env slot c of
        Some e \<Rightarrow>
          (if (c = GetOurPubkeys \<or> c = GetOurLabels) \<and> e = ValueError
           then Some BadParameter else Some e)
      | None \<Rightarrow> first_raise env slot cs)"

definition loop_body :: "environment \<Rightarrow> nat \<times> int \<Rightarrow> handler_state \<Rightarrow> error + handler_state" where
  "loop_body env x hs =
     (case x of (idx, slot) \<Rightarrow>
        if slot < 0 then
          (let cs = (if liveness_file env then [WriteLivenessFile] else [])
           in
           case first_raise env slot cs of
             Some e \<Rightarrow> Inl e
           | None \<Rightarrow> Inr (hs\<lparr>calls := calls hs @ map (Pair slot) cs\<rparr>))
        else
          (let epoch = slot div NB_SLOT_PER_EPOCH;
               cs = slot_calls env hs idx slot
           in
           case first_raise env slot cs of
             Some e \<Rightarrow> Inl e
           | None \<Rightarrow>
               Inr (hs\<lparr>previous_epoch := Some epoch,
                       last_missed_attestations_process_epoch :=
                         (if should_process_missed_attestations hs slot then Some epoch
                          else last_missed_attestations_process_epoch hs),
                       last_rewards_process_epoch :=
                         (if should_process_rewards hs slot then Some epoch
                          else last_rewards_process_epoch hs),
                       http_server_started := (http_server_started hs \<or> idx = 0),
                       calls := calls hs @ map (Pair slot) cs\<rparr>)))"

fun handler_loop ::
  "environment \<Rightarrow> handler_state \<Rightarrow> (nat \<times> int) list \<Rightarrow> error + handler_state" where
  "handler_loop env hs [] = Inr hs"
| "handler_loop env hs (x # xs) =
     (case loop_body env x hs of
        Inl e \<Rightarrow> Inl e
      | Inr hs' \<Rightarrow> handler_loop env hs' xs)"

text \<open>
  Modelled from the spec: the generator \<open>slots\<close> of utils.py, which yields consecutive
  slots without skipping or reordering, the first one negative when the chain has not
  started. \<open>enumerate_slots first n\<close> is the first \<open>n\<close> elements of
  \<open>enumerate(slots(genesis_time))\<close> when the first slot yielded is \<open>first\<close>.
\<close>

definition enumerate_slots :: "int \<Rightarrow> nat \<Rightarrow> (nat \<times> int) list" where
  "enumerate_slots first n = map (\<lambda>i. (i, first + int i)) [0..<n]"

section \<open>Reading the snapshot and the labels\<close>

text \<open>
  The pubkey the snapshot holds for an index, and the labels the labels map holds for a
  pubkey; both are used where the entry exists.
\<close>

definition pubkey_of :: "index_to_validator \<Rightarrow> int \<Rightarrow> string" where
  "pubkey_of index_to_validator i = pubkey (the (map_of index_to_validator i))"

definition labels_of :: "labels_dict \<Rightarrow> string \<Rightarrow> labels" where
  "labels_of our_labels pk = the (map_of our_labels pk)"

section \<open>Concrete inputs\<close>

text \<open>The metrics as the modules create them, before any probe has run.\<close>

definition initial_aggregate_metrics :: aggregate_metrics where
  "initial_aggregate_metrics =
     \<lparr>suboptimal_sources_rate_gauge = None, suboptimal_targets_rate_gauge = None,
      suboptimal_heads_rate_gauge = None, ideal_sources_count = [], ideal_targets_count = [],
      ideal_heads_count = [], actual_pos_sources_count = [], actual_neg_sources_count = [],
      actual_pos_targets_count = [], actual_neg_targets_count = [], actual_heads_count = []\<rparr>"

definition initial_state :: state where
  "initial_state =
     \<lparr>metric_missed_attestations_count = 0,
      metric_double_missed_attestations_count = 0,
      missed_attestations_per_validator_count = None,
      double_missed_attestations_per_validator_count = None,
      metric_bad_relay_count = 0,
      our_mev_boost_reward_per_validator_count = None,
      future_block_proposals_count = 0,
      metric_net = initial_aggregate_metrics,
      metric_our = initial_aggregate_metrics,
      our_ideal_sources_per_validator_count = None,
      our_ideal_targets_per_validator_count = None,
      our_ideal_heads_per_validator_count = None,
      our_actual_pos_sources_per_validator_count = None,
      our_actual_neg_sources_per_validator_count = None,
      our_actual_pos_targets_per_validator_count = None,
      our_actual_neg_targets_per_validator_count = None,
      our_actual_heads_per_validator_count = None,
      our_ideal_attestations_reward_per_validator_count = None,
      our_actual_pos_attestations_reward_per_validator_count = None,
      our_actual_neg_attestations_reward_per_validator_count = None,
      console = [], slack_sent = [], requests = []\<rparr>"

text \<open>
  The same state once a non-empty labels map has been loaded: the \<open>init_*\<close> functions
  have created every per-validator counter.
\<close>

definition labelled_state :: state where
  "labelled_state =
     initial_state
       \<lparr>missed_attestations_per_validator_count := Some [],
        double_missed_attestations_per_validator_count := Some [],
        our_mev_boost_reward_per_validator_count := Some [],
        our_ideal_sources_per_validator_count := Some [],
        our_ideal_targets_per_validator_count := Some [],
        our_ideal_heads_per_validator_count := Some [],
        our_actual_pos_sources_per_validator_count := Some [],
        our_actual_neg_sources_per_validator_count := Some [],
        our_actual_pos_targets_per_validator_count := Some [],
        our_actual_neg_targets_per_validator_count := Some [],
        our_actual_heads_per_validator_count := Some [],
        our_ideal_attestations_reward_per_validator_count := Some [],
        our_actual_pos_attestations_reward_per_validator_count := Some [],
        our_actual_neg_attestations_reward_per_validator_count := Some []\<rparr>"

text \<open>One watched validator, index 42, as in the scenarios of the specification.\<close>

definition P :: string where
  "P = ''0xaaaaaaaaaaaa''"

definition validator_42 :: Validator where
  "validator_42 = \<lparr>pubkey = P, effective_balance = 32000000000, slashed = False\<rparr>"

definition window_42 :: LimitedDict where
  "window_42 = [(0, [(42, validator_42)]), (1, [(42, validator_42)]), (2, [(42, validator_42)])]"

definition labels_42 :: labels_dict where
  "labels_42 = [(P, [(''operator'', ''alice'')])]"

text \<open>A beacon that reports validator 42 dead and serves no rewards and no duties.\<close>

definition beacon_42_dead :: Beacon where
  "beacon_42_dead =
     \<lparr>get_validators_liveness = (\<lambda>beacon_type epoch indexes. Inr [(42, False)]),
      get_rewards = (\<lambda>beacon_type epoch indexes. Inr \<lparr>ideal_rewards = [], total_rewards = []\<rparr>),
      get_proposer_duties = (\<lambda>epoch. Inr [])\<rparr>"

section \<open>Reading the trace of the loop\<close>

text \<open>The slots at which the loop has called \<open>process_missed_attestations\<close>.\<close>

definition missed_attestations_slots :: "handler_state \<Rightarrow> int list" where
  "missed_attestations_slots hs =
     map fst (filter (\<lambda>(s, c). c = ProcessMissedAttestations) (calls hs))"

text \<open>
  What the gate of the missed-attestations probe maintains, over the slots \<open>first\<close>,
  \<open>first + 1\<close>, ... processed so far: the probe has only run at slots of the run that
  are not negative, at an offset of 16 or more in their epoch; the epoch recorded by the
  gate is the latest one in which it ran; it ran at most once in any epoch, and it ran in
  every epoch of which a slot at offset 16 or more has been processed.
\<close>

definition gate_inv :: "int \<Rightarrow> nat \<Rightarrow> int list \<Rightarrow> int option \<Rightarrow> bool" where
  "gate_inv first n ms lastp \<longleftrightarrow>
     (\<forall>s \<in> set ms. first \<le> s \<and> s < first + int n \<and> 0 \<le> s \<and> 16 \<le> s mod 32)
     \<and> (case lastp of
           None \<Rightarrow> ms = []
         | Some l \<Rightarrow> (\<forall>s \<in> set ms. s div 32 \<le> l) \<and> (\<exists>s \<in> set ms. s div 32 = l))
     \<and> (\<forall>e. length (filter (\<lambda>s. s div 32 = e) ms) \<le> 1)
     \<and> (\<forall>s. first \<le> s \<and> s < first + int n \<and> 0 \<le> s \<and> 16 \<le> s mod 32 \<longrightarrow>
              (\<exists>t \<in> set ms. t div 32 = s div 32))"

text \<open>
  The calls of one iteration, before genesis and from slot 0 on; and the exception that
  leaves the loop when a call raises: the exception of the call, but for ValueError of
  the two loaders of the watched set, which leaves as BadParameter.
\<close>

definition iteration_calls :: "environment \<Rightarrow> handler_state \<Rightarrow> nat \<Rightarrow> int \<Rightarrow> call list" where
  "iteration_calls env hs idx slot =
     (if slot < 0 then (if liveness_file env then [WriteLivenessFile] else [])
      else slot_calls env hs idx slot)"

definition raised_as :: "call \<Rightarrow> error \<Rightarrow> error" where
  "raised_as c e =
     (if (c = GetOurPubkeys \<or> c = GetOurLabels) \<and> e = ValueError then BadParameter else e)"

text \<open>An environment in which no call raises, no block is found and nothing is configured.\<close>

definition quiet_environment :: environment where
  "quiet_environment =
     \<lparr>raises = (\<lambda>slot c. None), potential_block = (\<lambda>slot. False),
      is_our_validator = (\<lambda>slot. False), has_labels = (\<lambda>slot. False),
      liveness_file = False\<rparr>"

text \<open>
  The same environment with a beacon that answers the duties request of
  \<open>process_future_blocks_proposal\<close> with an error at slot 0.
\<close>

definition failing_environment :: environment where
  "failing_environment =
     quiet_environment
       \<lparr>raises := (\<lambda>slot c. if slot = 0 \<and> c = ProcessFutureBlocksProposal
                             then Some HTTPError else None)\<rparr>"

text \<open>
  An environment in which the file of the watched pubkeys is invalid, and one with a
  liveness file that cannot be written.
\<close>

definition invalid_pubkeys_environment :: environment where
  "invalid_pubkeys_environment =
     quiet_environment
       \<lparr>raises := (\<lambda>slot c. if c = GetOurPubkeys then Some ValueError else None)\<rparr>"

definition unwritable_liveness_environment :: environment where
  "unwritable_liveness_environment =
     quiet_environment
       \<lparr>raises := (\<lambda>slot c. if c = WriteLivenessFile then Some OSError else None),
        liveness_file := True\<rparr>"



section \<open>Reading the answers of the relays\<close>

text \<open>
  The records the relays deliver for a slot, each with the URL of its relay, when
  \<open>answers url\<close> is the list the relay at \<open>url\<close> answers with; and the increment of the
  MEV-boost reward counter for one record: the labels of the proposer with the display
  name of the relay added under \<open>mev_relay\<close>, and the amount of the record, \<open>amount\<close>
  giving for every record the float that \<open>value / 10 ** 9\<close> evaluates to.
\<close>

definition delivered_records ::
  "(string \<Rightarrow> ProposerPayloadDelivered list) \<Rightarrow> string list
     \<Rightarrow> (string \<times> ProposerPayloadDelivered) list" where
  "delivered_records answers urls = concat (map (\<lambda>url. map (Pair url) (answers url)) urls)"

definition mev_increment ::
  "(ProposerPayloadDelivered \<Rightarrow> real) \<Rightarrow> labels_dict \<Rightarrow> string \<times> ProposerPayloadDelivered
     \<Rightarrow> labels \<times> real" where
  "mev_increment amount our_labels r =
     (case r of (url, payload) \<Rightarrow>
        (AList.update RELAY_KEY (the (map_of RELAY_MAPPING url))
           (labels_of our_labels (ppd_proposer_pubkey payload)),
         amount payload))"

text \<open>
  The hypotheses on the records of the relays in \<open>urls\<close> under which the branch with labels
  increments the counter for each of them: the proposer has labels, the URL of the relay is
  a key of \<open>RELAY_MAPPING\<close>, and the division gives the amount of the record, which is not
  negative.
\<close>

definition countable_records ::
  "true_division \<Rightarrow> (ProposerPayloadDelivered \<Rightarrow> real) \<Rightarrow> labels_dict
     \<Rightarrow> (string \<times> ProposerPayloadDelivered) list \<Rightarrow> bool" where
  "countable_records true_div amount our_labels records =
     list_all (\<lambda>(url, p). map_of our_labels (ppd_proposer_pubkey p) \<noteq> None
                            \<and> map_of RELAY_MAPPING url \<noteq> None
                            \<and> true_div (ppd_value p) (10 ^ 9) = Inr (amount p)
                            \<and> 0 \<le> amount p) records"

text \<open>
  One of the six relays of \<open>RELAY_MAPPING\<close>, a URL outside it, and a session in which
  every relay delivers a payload of validator \<open>P\<close> worth 0.05 ETH. The quotient of that
  value by \<open>10 ** 9\<close> is an integer, which the division of Python gives exactly:
  \<open>exact_div\<close> is the division on the concrete inputs.
\<close>

definition exact_div :: true_division where
  "exact_div a b = Inr (real_of_int a / real_of_int b)"

definition flashbots_url :: string where
  "flashbots_url = ''https://0xac6e77dfe25ecd6110b8e780608cce0dab71fdd5ebea22a16c0205200f2f8e2e3ad3b71d3499c54ad14d6c21b41a37ae@boost-relay.flashbots.net''"

definition unlisted_url :: string where
  "unlisted_url = ''https://relay.example.org''"

definition payload_120 :: ProposerPayloadDelivered where
  "payload_120 = \<lparr>ppd_slot = 120, ppd_value = 50000000000000000, ppd_proposer_pubkey = P\<rparr>"

definition http_delivering :: Http where
  "http_delivering =
     \<lparr>payload_delivered = (\<lambda>url slot trial_count. Json [payload_120]),
      builder_validators_get = (\<lambda>url trial_count. Json [])\<rparr>"

text \<open>A session in which no relay delivers a payload.\<close>

definition http_silent :: Http where
  "http_silent =
     \<lparr>payload_delivered = (\<lambda>url slot trial_count. Json []),
      builder_validators_get = (\<lambda>url trial_count. Json [])\<rparr>"

section \<open>Reading the registrations of the relays\<close>

text \<open>
  What \<open>__builder_validators\<close> ends with for a relay: the requests answered with
  ConnectionError are repeated, up to \<open>MAX_TRIALS\<close> times, so the answer of the relay is
  the one of the first request that does not raise ConnectionError, or of the last request
  allowed; and the requests sent to the relay up to that answer.
\<close>

definition final_trial :: "Http \<Rightarrow> string \<Rightarrow> nat" where
  "final_trial http url =
     length (takeWhile (\<lambda>t. builder_validators_get http url t = Raises ConnectionError)
               [0..<MAX_TRIALS])"

definition relay_answer :: "Http \<Rightarrow> string \<Rightarrow> RelayBuilderValidator response" where
  "relay_answer http url = builder_validators_get http url (final_trial http url)"

definition relay_requests :: "Http \<Rightarrow> string \<Rightarrow> request list" where
  "relay_requests http url =
     replicate (Suc (final_trial http url)) (BuilderValidatorsRequest url)"

text \<open>
  A relay lists a duty when the list it answers with has an entry with the slot and the
  pubkey of the duty; a relay that raises lists nothing.
\<close>

definition relay_lists :: "Http \<Rightarrow> string \<Rightarrow> ProposerDuty \<Rightarrow> bool" where
  "relay_lists http url d =
     (case relay_answer http url of
        Json relay_data \<Rightarrow>
          (\<exists>item \<in> set relay_data.
             rbv_slot item = duty_slot d \<and> rbv_pubkey item = duty_pubkey d)
      | Raises e \<Rightarrow> False)"

text \<open>
  The same for the two dictionaries of the check: an entry matches a slot when it is for
  that slot and carries the pubkey recorded for it, and a slot is listed when an entry
  of some relay matches it.
\<close>

definition item_matches :: "(int \<rightharpoonup> string) \<Rightarrow> int \<Rightarrow> RelayBuilderValidator \<Rightarrow> bool" where
  "item_matches pubkeys slot item \<longleftrightarrow>
     rbv_slot item = slot \<and> Some (rbv_pubkey item) = pubkeys slot"

definition listed_for :: "Http \<Rightarrow> (int \<rightharpoonup> string) \<Rightarrow> string list \<Rightarrow> int \<Rightarrow> bool" where
  "listed_for http pubkeys urls slot \<longleftrightarrow>
     (\<exists>url \<in> set urls.
        case relay_answer http url of
          Json relay_data \<Rightarrow> (\<exists>item \<in> set relay_data. item_matches pubkeys slot item)
        | Raises e \<Rightarrow> False)"

text \<open>
  The duties a list of proposer duties has when it comes from the beacon: one proposer
  for each slot.
\<close>

definition one_proposer_per_slot :: "ProposerDuty list \<Rightarrow> bool" where
  "one_proposer_per_slot slot_proposals \<longleftrightarrow>
     (\<forall>d \<in> set slot_proposals. \<forall>d' \<in> set slot_proposals.
        duty_slot d = duty_slot d' \<longrightarrow> duty_pubkey d = duty_pubkey d')"

text \<open>
  Duties of epoch 5, a second validator, and a session in which the flashbots relay
  refuses the first connection and then lists validator \<open>P\<close> for slot 170, and every
  other relay exhausts its retries.
\<close>

definition Q :: string where
  "Q = ''0xbbbbbbbbbbbb''"

definition duty_170 :: ProposerDuty where
  "duty_170 = \<lparr>duty_pubkey = P, duty_validator_index = 42, duty_slot = 170\<rparr>"

definition duty_175 :: ProposerDuty where
  "duty_175 = \<lparr>duty_pubkey = P, duty_validator_index = 42, duty_slot = 175\<rparr>"

definition http_registering :: Http where
  "http_registering =
     \<lparr>payload_delivered = (\<lambda>url slot trial_count. Json []),
      builder_validators_get =
        (\<lambda>url trial_count.
           if url = flashbots_url
           then (if trial_count = 0 then Raises ConnectionError
                 else Json [\<lparr>rbv_slot = 170, rbv_validator_index = 42, rbv_pubkey = P\<rparr>])
           else Raises RetryError)\<rparr>"

section \<open>Reading the rows of the rewards response\<close>

text \<open>
  A validator passes the guard of the network pass when its index has a \<open>total_rewards\<close>
  row and its effective balance has an \<open>ideal_rewards\<close> row; the item of a validator is
  what \<open>_process_validator\<close> makes of the two rows.
\<close>

definition passes_guard ::
  "(int \<rightharpoonup> Reward) \<Rightarrow> (int \<rightharpoonup> Reward) \<Rightarrow> int \<times> Validator \<Rightarrow> bool" where
  "passes_guard effective_balance_to_ideal_reward index_to_actual_reward x =
     (case x of (index, validator) \<Rightarrow>
        index_to_actual_reward index \<noteq> None
        \<and> effective_balance_to_ideal_reward (effective_balance validator) \<noteq> None)"

definition item_of ::
  "(int \<rightharpoonup> Reward) \<Rightarrow> (int \<rightharpoonup> Reward) \<Rightarrow> int \<times> Validator
     \<Rightarrow> string \<times> Reward \<times> Reward \<times> AreIdeal" where
  "item_of effective_balance_to_ideal_reward index_to_actual_reward x =
     (case x of (index, validator) \<Rightarrow>
        process_validator (pubkey validator)
          (the (effective_balance_to_ideal_reward (effective_balance validator)))
          (the (index_to_actual_reward index)))"

text \<open>
  The four totals that are passed to \<open>inc\<close> as they are, for a list of items: the ideal
  sources, targets and heads, and the actual heads.
\<close>

definition totals_not_negative :: "(string \<times> Reward \<times> Reward \<times> AreIdeal) list \<Rightarrow> bool" where
  "totals_not_negative items =
     (0 \<le> sum_list (map (\<lambda>(pk, (s, t, h), actual, ideals). s) items)
      \<and> 0 \<le> sum_list (map (\<lambda>(pk, (s, t, h), actual, ideals). t) items)
      \<and> 0 \<le> sum_list (map (\<lambda>(pk, (s, t, h), actual, ideals). h) items)
      \<and> 0 \<le> sum_list (map (\<lambda>(pk, ideal, (s, t, h), ideals). h) items))"

text \<open>
  A second watched validator, index 43, a window that only holds it, a beacon whose
  rewards response has rows for validator 42 and for its effective balance only, and one
  whose response gives validator 42 a negative head reward.
\<close>

definition validator_43 :: Validator where
  "validator_43 = \<lparr>pubkey = Q, effective_balance = 32000000000, slashed = False\<rparr>"

definition window_43 :: LimitedDict where
  "window_43 = [(0, [(43, validator_43)])]"

definition beacon_rewards_42 :: Beacon where
  "beacon_rewards_42 =
     \<lparr>get_validators_liveness = (\<lambda>beacon_type epoch indexes. Inr []),
      get_rewards =
        (\<lambda>beacon_type epoch indexes.
           Inr \<lparr>ideal_rewards =
                  [\<lparr>ideal_effective_balance = 32000000000, ideal_source = 10,
                    ideal_target = 20, ideal_head = 5\<rparr>],
                total_rewards =
                  [\<lparr>total_validator_index = 42, total_source = 10, total_target = 20,
                    total_head = 5\<rparr>]\<rparr>),
      get_proposer_duties = (\<lambda>epoch. Inr [])\<rparr>"

definition beacon_negative_head :: Beacon where
  "beacon_negative_head =
     \<lparr>get_validators_liveness = (\<lambda>beacon_type epoch indexes. Inr []),
      get_rewards =
        (\<lambda>beacon_type epoch indexes.
           Inr \<lparr>ideal_rewards =
                  [\<lparr>ideal_effective_balance = 32000000000, ideal_source = 10,
                    ideal_target = 20, ideal_head = 5\<rparr>],
                total_rewards =
                  [\<lparr>total_validator_index = 42, total_source = 10, total_target = 20,
                    total_head = - 5\<rparr>]\<rparr>),
      get_proposer_duties = (\<lambda>epoch. Inr [])\<rparr>"

section \<open>Dictionary reads: lemmas\<close>

lemma lookup_all_defined:
  "(\<forall>k \<in> set ks. map_of d k \<noteq> None) \<Longrightarrow>
     lookup_all d ks = Inr (map (\<lambda>k. the (map_of d k)) ks)"
  by (induction ks) auto

lemma lookup_all_Inr_iff:
  "(\<exists>vs. lookup_all d ks = Inr vs) \<longleftrightarrow> (\<forall>k \<in> set ks. map_of d k \<noteq> None)"
  by (induction ks) (auto split: option.splits sum.splits)

lemma inc_per_validator_Some:
  "our_labels \<noteq> [] \<Longrightarrow> \<forall>pk \<in> set pubkeys. map_of our_labels pk \<noteq> None \<Longrightarrow>
     inc_per_validator (Some c) our_labels pubkeys
       = Inr (Some (c @ map (\<lambda>pk. (labels_of our_labels pk, 1)) pubkeys))"
  by (simp add: inc_per_validator_def lookup_all_defined inc_each_def labels_of_def comp_def)

lemma inc_per_validator_empty:
  "inc_per_validator cnt [] pubkeys = Inr cnt"
  by (simp add: inc_per_validator_def split: option.splits)

lemma inc_per_validator_None:
  "inc_per_validator None our_labels pubkeys = Inr None"
  by (simp add: inc_per_validator_def)

section \<open>The guards on the epoch\<close>

text \<open>
  Claim C6. For an epoch below 1, \<open>process_missed_attestations\<close> returns the empty set
  and leaves the state as it is: no liveness request is sent and no metric changes. For
  an epoch below 2, \<open>process_double_missed_attestations\<close> returns the empty set and
  \<open>process_rewards\<close> returns, both leaving the state as it is.
\<close>

theorem early_epochs_disable_probes:
  "(epoch < 1 \<longrightarrow>
      process_missed_attestations beacon beacon_type our_window epoch our_labels st = Inr ([], st))
   \<and> (epoch < 2 \<longrightarrow>
      process_double_missed_attestations dead prev our_window epoch slack our_labels st = Inr ([], st)
      \<and> process_rewards beacon beacon_type epoch net_window our_window our_labels st = Inr st)"
  by (simp add: process_missed_attestations_def process_double_missed_attestations_def
        process_rewards_def)

text \<open>The guards at epoch 0 and at epoch 1, with a validator that would be reported.\<close>

theorem early_epochs_disable_probes_witness:
  "(0::int) < 1 \<and> (1::int) < 2
   \<and> process_missed_attestations beacon_42_dead OTHER window_42 0 labels_42 labelled_state
       = Inr ([], labelled_state)
   \<and> process_double_missed_attestations [42] [42] window_42 1 True labels_42 labelled_state
       = Inr ([], labelled_state)
   \<and> process_rewards beacon_42_dead OTHER 1 window_42 window_42 labels_42 labelled_state
       = Inr labelled_state"
  using early_epochs_disable_probes [of 0 beacon_42_dead OTHER window_42 labels_42 labelled_state]
    early_epochs_disable_probes [of 1 beacon_42_dead OTHER window_42 labels_42 labelled_state
      "[42]" "[42]" True window_42]
  by simp

section \<open>Double missed attestations\<close>

text \<open>
  Claim C2, as the code has it. For an epoch from 2 on, with the snapshot of epoch - 1
  in the window and holding every double-missed index: the set returned is the
  intersection of the two dead sets, without duplicates; when it is not empty one console
  line reports it, and the same message goes to the chat if and only if a chat is
  configured; the per-validator counter gets one increment per double-missed index when
  the counter exists and the labels map is not empty (every pubkey concerned having
  labels), and is left as it is otherwise. When the intersection is empty nothing is
  emitted.
\<close>

theorem double_missed_event:
  assumes epoch: "2 \<le> epoch"
    and window: "map_of our_window (epoch - 1) = Some index_to_validator"
    and known: "\<forall>i \<in> set dead \<inter> set prev. map_of index_to_validator i \<noteq> None"
    and labelled: "our_labels \<noteq> [] \<longrightarrow>
            (\<forall>i \<in> set dead \<inter> set prev.
               map_of our_labels (pubkey_of index_to_validator i) \<noteq> None)"
  shows "\<exists>double st'.
           process_double_missed_attestations dead prev our_window epoch slack our_labels st
             = Inr (double, st')
           \<and> set double = set dead \<inter> set prev
           \<and> (distinct dead \<longrightarrow> distinct double)
           \<and> console st' = console st @
               (if double = [] then []
                else [DoubleMissedAttestation
                        (map (take 10) (take 5 (map (pubkey_of index_to_validator) double)))
                        (int (length double) - int (min (length double) 5)) (epoch - 2)])
           \<and> slack_sent st' = slack_sent st @
               (if double = [] \<or> \<not> slack then []
                else [DoubleMissedAttestation
                        (map (take 10) (take 5 (map (pubkey_of index_to_validator) double)))
                        (int (length double) - int (min (length double) 5)) (epoch - 2)])
           \<and> double_missed_attestations_per_validator_count st' =
               (case double_missed_attestations_per_validator_count st of
                  None \<Rightarrow> None
                | Some c \<Rightarrow>
                    if our_labels = [] then Some c
                    else Some (c @ map (\<lambda>i. (labels_of our_labels
                                                  (pubkey_of index_to_validator i), 1))
                                     double))"
proof -
  define double where "double = filter (\<lambda>i. i \<in> set prev) dead"
  have set_double: "set double = set dead \<inter> set prev"
    by (auto simp: double_def)
  define vs where "vs = map (\<lambda>k. the (map_of index_to_validator k)) double"
  have vals: "lookup_all index_to_validator double = Inr vs"
    unfolding vs_def using known set_double by (intro lookup_all_defined) auto
  have pks: "map pubkey vs = map (pubkey_of index_to_validator) double"
    by (simp add: vs_def pubkey_of_def comp_def)
  show ?thesis
  proof (cases "double = []")
    case True
    then show ?thesis
      using epoch set_double unfolding double_def
      by (auto simp: process_double_missed_attestations_def Let_def split: option.splits)
  next
    case False
    show ?thesis
    proof (cases "double_missed_attestations_per_validator_count st")
      case None
      then show ?thesis
        using epoch window vals pks False set_double unfolding double_def
        by (simp add: process_double_missed_attestations_def Let_def inc_per_validator_None)
    next
      case (Some c)
      show ?thesis
      proof (cases "our_labels = []")
        case True
        then show ?thesis
          using epoch window vals pks False set_double Some unfolding double_def
          by (simp add: process_double_missed_attestations_def Let_def inc_per_validator_empty)
      next
        case nonempty: False
        have "\<forall>pk \<in> set (map (pubkey_of index_to_validator) double).
                 map_of our_labels pk \<noteq> None"
          using labelled nonempty set_double by auto
        then have "inc_per_validator (Some c) our_labels
                     (map (pubkey_of index_to_validator) double)
                   = Inr (Some (c @ map (\<lambda>pk. (labels_of our_labels pk, 1))
                                      (map (pubkey_of index_to_validator) double)))"
          using nonempty by (rule inc_per_validator_Some[rotated])
        then show ?thesis
          using epoch window vals pks False set_double Some nonempty unfolding double_def
          by (simp add: process_double_missed_attestations_def Let_def comp_def)
      qed
    qed
  qed
qed

text \<open>Validator 42 dead in both epochs, labels loaded and a chat configured.\<close>

theorem double_missed_event_witness:
  "(2::int) \<le> 2
   \<and> map_of window_42 (2 - 1) = Some [(42, validator_42)]
   \<and> set [42] \<inter> set [42] = {42::int}
   \<and> map_of [(42, validator_42)] 42 \<noteq> None
   \<and> labels_42 \<noteq> []
   \<and> map_of labels_42 (pubkey_of [(42, validator_42)] 42) \<noteq> None
   \<and> (\<exists>double st'.
         process_double_missed_attestations [42] [42] window_42 2 True labels_42 labelled_state
           = Inr (double, st')
         \<and> set double = {42}
         \<and> console st' = [DoubleMissedAttestation [''0xaaaaaaaa''] 0 0]
         \<and> slack_sent st' = [DoubleMissedAttestation [''0xaaaaaaaa''] 0 0]
         \<and> double_missed_attestations_per_validator_count st'
             = Some [([(''operator'', ''alice'')], 1)])"
  using double_missed_event [where epoch = 2 and our_window = window_42
      and index_to_validator = "[(42, validator_42)]" and dead = "[42]" and prev = "[42]"
      and our_labels = labels_42 and slack = True and st = labelled_state]
  by (simp add: window_42_def validator_42_def labels_42_def P_def labelled_state_def
        initial_state_def pubkey_of_def labels_of_def process_double_missed_attestations_def
        inc_per_validator_def inc_each_def Let_def)

text \<open>
  Without a labels map, validator 42 is in both dead sets at epoch 2 and the console line
  is printed, but no per-validator counter is incremented: there is none.
\<close>

theorem double_missed_without_labels:
  "process_double_missed_attestations [42] [42] window_42 2 False [] initial_state
     = Inr ([42],
            initial_state
              \<lparr>metric_double_missed_attestations_count := 1,
               console := [DoubleMissedAttestation [''0xaaaaaaaa''] 0 0]\<rparr>)
   \<and> double_missed_attestations_per_validator_count
        (initial_state
           \<lparr>metric_double_missed_attestations_count := 1,
            console := [DoubleMissedAttestation [''0xaaaaaaaa''] 0 0]\<rparr>) = None"
  by (simp add: process_double_missed_attestations_def inc_per_validator_def window_42_def
        validator_42_def P_def initial_state_def Let_def)

section \<open>Missed attestations\<close>

lemma dead_indexes_set:
  "set (remdups (map fst (filter (\<lambda>(index, liveness). \<not> liveness) validators_liveness)))
     = {i. (i, False) \<in> set validators_liveness}"
  by (auto simp: image_iff)

lemma missed_attestations_increments:
  assumes epoch: "1 \<le> epoch"
    and window: "window_for_missed our_window epoch = Inr index_to_validator"
    and live: "get_validators_liveness beacon beacon_type (epoch - 1)
                 (remdups (map fst index_to_validator)) = Inr validators_liveness"
    and known: "\<forall>i. (i, False) \<in> set validators_liveness \<longrightarrow>
                  map_of index_to_validator i \<noteq> None"
    and labelled: "our_labels \<noteq> [] \<longrightarrow>
                     (\<forall>i. (i, False) \<in> set validators_liveness \<longrightarrow>
                        map_of our_labels (pubkey_of index_to_validator i) \<noteq> None)"
  shows "\<exists>dead st'.
           process_missed_attestations beacon beacon_type our_window epoch our_labels st
             = Inr (dead, st')
           \<and> set dead = {i. (i, False) \<in> set validators_liveness}
           \<and> distinct dead
           \<and> missed_attestations_per_validator_count st' =
               (case missed_attestations_per_validator_count st of
                  None \<Rightarrow> None
                | Some c \<Rightarrow>
                    if our_labels = [] then Some c
                    else Some (c @ map (\<lambda>i. (labels_of our_labels
                                                  (pubkey_of index_to_validator i), 1))
                                     dead))"
proof -
  define dead where
    "dead = remdups (map fst (filter (\<lambda>(index, liveness). \<not> liveness) validators_liveness))"
  have set_dead: "set dead = {i. (i, False) \<in> set validators_liveness}"
    unfolding dead_def by (rule dead_indexes_set)
  have dist: "distinct dead"
    by (simp add: dead_def)
  define vs where "vs = map (\<lambda>k. the (map_of index_to_validator k)) dead"
  have vals: "lookup_all index_to_validator dead = Inr vs"
    unfolding vs_def using known set_dead by (intro lookup_all_defined) auto
  have pks: "map pubkey vs = map (pubkey_of index_to_validator) dead"
    by (simp add: vs_def pubkey_of_def comp_def)
  have inc: "inc_per_validator (missed_attestations_per_validator_count st) our_labels
               (map (pubkey_of index_to_validator) dead)
             = Inr (case missed_attestations_per_validator_count st of
                      None \<Rightarrow> None
                    | Some c \<Rightarrow>
                        if our_labels = [] then Some c
                        else Some (c @ map (\<lambda>i. (labels_of our_labels
                                                      (pubkey_of index_to_validator i), 1))
                                         dead))"
  proof (cases "missed_attestations_per_validator_count st")
    case None
    then show ?thesis by (simp add: inc_per_validator_None)
  next
    case (Some c)
    show ?thesis
    proof (cases "our_labels = []")
      case True
      then show ?thesis using Some by (simp add: inc_per_validator_empty)
    next
      case False
      then have "\<forall>pk \<in> set (map (pubkey_of index_to_validator) dead).
                   map_of our_labels pk \<noteq> None"
        using labelled set_dead by auto
      with False show ?thesis
        using Some by (simp add: inc_per_validator_Some comp_def)
    qed
  qed
  show ?thesis
  proof (cases "dead = []")
    case True
    then show ?thesis
      using epoch window live set_dead unfolding dead_def
      by (auto simp: process_missed_attestations_def report_missed_def Let_def
            split: option.splits)
  next
    case False
    then show ?thesis
      using epoch window live set_dead dist vals pks inc unfolding dead_def
      by (simp add: process_missed_attestations_def report_missed_def Let_def comp_def)
  qed
qed

lemma handler_loop_append:
  "handler_loop env hs (xs @ ys) =
     (case handler_loop env hs xs of Inl e \<Rightarrow> Inl e | Inr hs' \<Rightarrow> handler_loop env hs' ys)"
  by (induction xs arbitrary: hs) (auto split: sum.splits)

lemma enumerate_slots_Suc:
  "enumerate_slots first (Suc n) = enumerate_slots first n @ [(n, first + int n)]"
  by (simp add: enumerate_slots_def)

lemma missed_in_slot_calls:
  "filter (\<lambda>c. c = ProcessMissedAttestations) (slot_calls env hs idx slot)
     = (if should_process_missed_attestations hs slot then [ProcessMissedAttestations] else [])"
  by (simp add: slot_calls_def)

lemma filter_Pair_calls:
  "map fst (filter (\<lambda>(s, c). c = k) (map (Pair slot) cs))
     = map (\<lambda>_. slot) (filter (\<lambda>c. c = k) cs)"
  by (induction cs) auto

lemma loop_body_missed:
  assumes "loop_body env (idx, slot) hs = Inr hs'"
  shows "missed_attestations_slots hs' = missed_attestations_slots hs
           @ (if 0 \<le> slot \<and> should_process_missed_attestations hs slot then [slot] else [])"
    and "last_missed_attestations_process_epoch hs' =
           (if 0 \<le> slot \<and> should_process_missed_attestations hs slot
            then Some (slot div NB_SLOT_PER_EPOCH)
            else last_missed_attestations_process_epoch hs)"
  using assms
  by (auto simp: loop_body_def Let_def missed_attestations_slots_def filter_Pair_calls
        missed_in_slot_calls split: if_splits option.splits)

section \<open>The gate of the missed-attestations probe\<close>

lemma gate_inv_call:
  assumes inv: "gate_inv first n ms lastp"
    and t: "t = first + int n" "0 \<le> t" "16 \<le> t mod 32"
    and fresh: "lastp \<noteq> Some (t div 32)"
  shows "gate_inv first (Suc n) (ms @ [t]) (Some (t div 32))"
proof -
  have old: "\<forall>s \<in> set ms. first \<le> s \<and> s < t \<and> 0 \<le> s \<and> 16 \<le> s mod 32"
    using inv t(1) by (auto simp: gate_inv_def)
  have le: "\<forall>s \<in> set ms. s div 32 \<le> t div 32"
    using old by (auto intro!: zdiv_mono1)
  have none: "filter (\<lambda>s. s div 32 = t div 32) ms = []"
  proof (rule ccontr)
    assume "filter (\<lambda>s. s div 32 = t div 32) ms \<noteq> []"
    then obtain s where s: "s \<in> set ms" "s div 32 = t div 32"
      by (auto simp: filter_empty_conv)
    show False
    proof (cases lastp)
      case None
      then show False using inv s by (auto simp: gate_inv_def)
    next
      case (Some l)
      then have "s div 32 \<le> l" and "\<exists>s' \<in> set ms. s' div 32 = l"
        using inv s by (auto simp: gate_inv_def)
      then have "l = t div 32" using le s by force
      then show False using fresh Some by simp
    qed
  qed
  have count: "\<forall>e. length (filter (\<lambda>s. s div 32 = e) (ms @ [t])) \<le> 1"
  proof
    fix e
    show "length (filter (\<lambda>s. s div 32 = e) (ms @ [t])) \<le> 1"
    proof (cases "t div 32 = e")
      case True
      then show ?thesis using none by simp
    next
      case False
      then show ?thesis using inv by (simp add: gate_inv_def)
    qed
  qed
  have cover: "\<forall>s. first \<le> s \<and> s < first + int (Suc n) \<and> 0 \<le> s \<and> 16 \<le> s mod 32 \<longrightarrow>
                 (\<exists>u \<in> set (ms @ [t]). u div 32 = s div 32)"
  proof (intro allI impI)
    fix s assume s: "first \<le> s \<and> s < first + int (Suc n) \<and> 0 \<le> s \<and> 16 \<le> s mod 32"
    show "\<exists>u \<in> set (ms @ [t]). u div 32 = s div 32"
    proof (cases "s = t")
      case True
      then show ?thesis by simp
    next
      case False
      then have "s < first + int n" using s t(1) by simp
      then have "\<exists>u \<in> set ms. u div 32 = s div 32"
        using inv s by (simp add: gate_inv_def)
      then show ?thesis by auto
    qed
  qed
  show ?thesis
    unfolding gate_inv_def using old le t count cover by auto
qed

lemma gate_inv_skip:
  assumes inv: "gate_inv first n ms lastp"
    and t: "t = first + int n"
    and already: "0 \<le> t \<and> 16 \<le> t mod 32 \<longrightarrow> lastp = Some (t div 32)"
  shows "gate_inv first (Suc n) ms lastp"
proof -
  have cover: "\<forall>s. first \<le> s \<and> s < first + int (Suc n) \<and> 0 \<le> s \<and> 16 \<le> s mod 32 \<longrightarrow>
                 (\<exists>u \<in> set ms. u div 32 = s div 32)"
  proof (intro allI impI)
    fix s assume s: "first \<le> s \<and> s < first + int (Suc n) \<and> 0 \<le> s \<and> 16 \<le> s mod 32"
    show "\<exists>u \<in> set ms. u div 32 = s div 32"
    proof (cases "s = t")
      case True
      then have "lastp = Some (t div 32)" using already s by simp
      then show ?thesis using inv True by (auto simp: gate_inv_def)
    next
      case False
      then have "s < first + int n" using s t by simp
      then show ?thesis using inv s by (simp add: gate_inv_def)
    qed
  qed
  have "\<forall>s \<in> set ms. first \<le> s \<and> s < first + int (Suc n) \<and> 0 \<le> s \<and> 16 \<le> s mod 32"
    using inv by (auto simp: gate_inv_def)
  then show ?thesis
    using inv cover unfolding gate_inv_def by blast
qed

lemma gate_inv_loop:
  "handler_loop env initial_handler_state (enumerate_slots first n) = Inr hs \<Longrightarrow>
     gate_inv first n (missed_attestations_slots hs) (last_missed_attestations_process_epoch hs)"
proof (induction n arbitrary: hs)
  case 0
  then show ?case
    by (auto simp: enumerate_slots_def initial_handler_state_def gate_inv_def
          missed_attestations_slots_def)
next
  case (Suc n)
  from Suc.prems obtain hs0 where
    run: "handler_loop env initial_handler_state (enumerate_slots first n) = Inr hs0"
    and body: "loop_body env (n, first + int n) hs0 = Inr hs"
    by (auto simp: enumerate_slots_Suc handler_loop_append split: sum.splits)
  note inv = Suc.IH [OF run]
  note step = loop_body_missed [OF body]
  show ?case
  proof (cases "0 \<le> first + int n \<and> should_process_missed_attestations hs0 (first + int n)")
    case True
    then have "16 \<le> (first + int n) mod 32"
      and "last_missed_attestations_process_epoch hs0 \<noteq> Some ((first + int n) div 32)"
      by (auto simp: should_process_missed_attestations_def NB_SLOT_PER_EPOCH_def
            SLOT_FOR_MISSED_ATTESTATIONS_PROCESS_def)
    with True inv show ?thesis
      using step by (simp add: gate_inv_call NB_SLOT_PER_EPOCH_def)
  next
    case False
    then have "0 \<le> first + int n \<and> 16 \<le> (first + int n) mod 32 \<longrightarrow>
                 last_missed_attestations_process_epoch hs0 = Some ((first + int n) div 32)"
      by (auto simp: should_process_missed_attestations_def NB_SLOT_PER_EPOCH_def
            SLOT_FOR_MISSED_ATTESTATIONS_PROCESS_def)
    with False inv show ?thesis
      using step by (auto intro: gate_inv_skip)
  qed
qed

text \<open>
  Claim C3, as the code has it. One run of the probe at an epoch from 1 on: the dead
  indexes are those the liveness response reports dead, each once; the per-validator
  counter gets exactly one increment per dead index when it has been created and the
  labels map is not empty (every dead pubkey having labels), and is left as it is when the
  labels map is empty or the counter has not been created. In the loop, over consecutive
  slots: the probe only runs at an offset of 16 or more in the epoch, at most once in any
  epoch, and exactly once in an epoch of which the loop has completed a slot at such an
  offset.
\<close>

theorem missed_attestations_once_per_epoch:
  assumes epoch: "1 \<le> epoch"
    and window: "window_for_missed our_window epoch = Inr index_to_validator"
    and live: "get_validators_liveness beacon beacon_type (epoch - 1)
                 (remdups (map fst index_to_validator)) = Inr validators_liveness"
    and known: "\<forall>i. (i, False) \<in> set validators_liveness \<longrightarrow>
                  map_of index_to_validator i \<noteq> None"
    and labelled: "our_labels \<noteq> [] \<longrightarrow>
                     (\<forall>i. (i, False) \<in> set validators_liveness \<longrightarrow>
                        map_of our_labels (pubkey_of index_to_validator i) \<noteq> None)"
    and run: "handler_loop env initial_handler_state (enumerate_slots first n) = Inr hs"
  shows "(\<exists>dead st'.
            process_missed_attestations beacon beacon_type our_window epoch our_labels st
              = Inr (dead, st')
            \<and> set dead = {i. (i, False) \<in> set validators_liveness}
            \<and> distinct dead
            \<and> missed_attestations_per_validator_count st' =
                (case missed_attestations_per_validator_count st of
                   None \<Rightarrow> None
                 | Some c \<Rightarrow>
                     if our_labels = [] then Some c
                     else Some (c @ map (\<lambda>i. (labels_of our_labels
                                                   (pubkey_of index_to_validator i), 1))
                                      dead)))
         \<and> (\<forall>s \<in> set (missed_attestations_slots hs).
               SLOT_FOR_MISSED_ATTESTATIONS_PROCESS \<le> s mod NB_SLOT_PER_EPOCH)
         \<and> length (filter (\<lambda>s. s div NB_SLOT_PER_EPOCH = e) (missed_attestations_slots hs)) \<le> 1
         \<and> ((\<exists>s. first \<le> s \<and> s < first + int n \<and> 0 \<le> s
                  \<and> SLOT_FOR_MISSED_ATTESTATIONS_PROCESS \<le> s mod NB_SLOT_PER_EPOCH
                  \<and> s div NB_SLOT_PER_EPOCH = e) \<longrightarrow>
              length (filter (\<lambda>s. s div NB_SLOT_PER_EPOCH = e) (missed_attestations_slots hs))
                = 1)"
proof -
  note inv = gate_inv_loop [OF run]
  have gate: "\<forall>s \<in> set (missed_attestations_slots hs). 16 \<le> s mod 32"
    using inv by (auto simp: gate_inv_def)
  have most: "length (filter (\<lambda>s. s div 32 = e) (missed_attestations_slots hs)) \<le> 1"
    using inv by (auto simp: gate_inv_def)
  have least: "length (filter (\<lambda>s. s div 32 = e) (missed_attestations_slots hs)) = 1"
    if "\<exists>s. first \<le> s \<and> s < first + int n \<and> 0 \<le> s \<and> 16 \<le> s mod 32 \<and> s div 32 = e"
  proof -
    from that inv obtain t where "t \<in> set (missed_attestations_slots hs)" "t div 32 = e"
      unfolding gate_inv_def by blast
    then have "filter (\<lambda>s. s div 32 = e) (missed_attestations_slots hs) \<noteq> []"
      by (auto simp: filter_empty_conv)
    then have "length (filter (\<lambda>s. s div 32 = e) (missed_attestations_slots hs)) \<noteq> 0"
      by simp
    with most show ?thesis by linarith
  qed
  show ?thesis
    using missed_attestations_increments [OF epoch window live known labelled, of st]
      gate most least
    by (simp add: NB_SLOT_PER_EPOCH_def SLOT_FOR_MISSED_ATTESTATIONS_PROCESS_def)
qed

lemma run_16: "handler_loop quiet_environment initial_handler_state (enumerate_slots 16 1) =
      Inr \<lparr>previous_epoch = Some 0, last_missed_attestations_process_epoch = Some 0,
           last_rewards_process_epoch = Some 0, http_server_started = True,
           calls = map (Pair 16)
             [GetOurPubkeys, GetOurLabels, InitPerValidatorCounters,
              GetStatusToIndexToValidator, ExitedValidatorsProcess, SlashedValidatorsProcess,
              ExportEntryQueueDurSec, EmitEthUsdConversionRate, ProcessSyncCommittee,
              ProcessMissedAttestations, ProcessDoubleMissedAttestations, ProcessRewards,
              ProcessFutureBlocksProposal, ProcessMissedBlocksFinalized, GetPotentialBlock,
              ProcessSyncCommitteeReward, ProcessMissedBlocksHead, StartHttpServer]\<rparr>"
  by (simp add: enumerate_slots_def loop_body_def slot_calls_def quiet_environment_def
        initial_handler_state_def is_new_epoch_at_def should_process_missed_attestations_def
        should_process_rewards_def NB_SLOT_PER_EPOCH_def SLOT_FOR_REWARDS_PROCESS_def
        SLOT_FOR_MISSED_ATTESTATIONS_PROCESS_def)

text \<open>
  Validator 42 reported dead at epoch 1, with the labels loaded and with an empty labels
  map; and the loop started at slot 16, which runs the probe there, once for epoch 0.
\<close>

theorem missed_attestations_once_per_epoch_witness:
  "(1::int) \<le> 1
   \<and> window_for_missed window_42 1 = Inr [(42, validator_42)]
   \<and> get_validators_liveness beacon_42_dead OTHER (1 - 1)
        (remdups (map fst [(42, validator_42)])) = Inr [(42, False)]
   \<and> map_of [(42, validator_42)] 42 \<noteq> None
   \<and> missed_attestations_per_validator_count labelled_state = Some []
   \<and> labels_42 \<noteq> []
   \<and> map_of labels_42 (pubkey_of [(42, validator_42)] 42) \<noteq> None
   \<and> (\<exists>hs. handler_loop quiet_environment initial_handler_state (enumerate_slots 16 1) = Inr hs
            \<and> missed_attestations_slots hs = [16]
            \<and> length (filter (\<lambda>s. s div NB_SLOT_PER_EPOCH = 0) (missed_attestations_slots hs))
                = 1)
   \<and> (\<exists>dead st'.
         process_missed_attestations beacon_42_dead OTHER window_42 1 labels_42 labelled_state
           = Inr (dead, st')
         \<and> dead = [42]
         \<and> missed_attestations_per_validator_count st' = Some [([(''operator'', ''alice'')], 1)])
   \<and> (\<exists>dead st'.
         process_missed_attestations beacon_42_dead OTHER window_42 1 [] labelled_state
           = Inr (dead, st')
         \<and> set dead = {42}
         \<and> missed_attestations_per_validator_count st' = Some [])"
proof -
  have h1: "(1::int) \<le> 1" by simp
  have h2: "window_for_missed window_42 1 = Inr [(42, validator_42)]"
    by (simp add: window_for_missed_def window_42_def)
  have h3: "get_validators_liveness beacon_42_dead OTHER (1 - 1)
              (remdups (map fst [(42, validator_42)])) = Inr [(42, False)]"
    by (simp add: beacon_42_dead_def)
  have h4: "\<forall>i. (i, False) \<in> set [(42::int, False)] \<longrightarrow> map_of [(42, validator_42)] i \<noteq> None"
    by simp
  have h5: "missed_attestations_per_validator_count labelled_state = Some []"
    by (simp add: labelled_state_def)
  have h6: "labels_42 \<noteq> []"
    by (simp add: labels_42_def)
  have h7: "labels_42 \<noteq> [] \<longrightarrow>
              (\<forall>i. (i, False) \<in> set [(42::int, False)] \<longrightarrow>
                 map_of labels_42 (pubkey_of [(42, validator_42)] i) \<noteq> None)"
    by (simp add: labels_42_def pubkey_of_def validator_42_def)
  have e7: "[] \<noteq> [] \<longrightarrow>
              (\<forall>i. (i, False) \<in> set [(42::int, False)] \<longrightarrow>
                 map_of [] (pubkey_of [(42, validator_42)] i) \<noteq> None)"
    by simp
  note main = missed_attestations_once_per_epoch [OF h1 h2 h3 h4 h7 run_16,
      where st = labelled_state and e = 0]
  note unlabelled = missed_attestations_once_per_epoch [OF h1 h2 h3 h4 e7 run_16,
      where st = labelled_state and e = 0]
  have without: "\<exists>dead st'.
         process_missed_attestations beacon_42_dead OTHER window_42 1 [] labelled_state
           = Inr (dead, st')
         \<and> set dead = {42}
         \<and> missed_attestations_per_validator_count st' = Some []"
    using unlabelled h5 by auto
  have slots: "missed_attestations_slots
                 \<lparr>previous_epoch = Some 0, last_missed_attestations_process_epoch = Some 0,
                    last_rewards_process_epoch = Some 0, http_server_started = True,
                    calls = map (Pair 16)
                      [GetOurPubkeys, GetOurLabels, InitPerValidatorCounters,
                       GetStatusToIndexToValidator, ExitedValidatorsProcess,
                       SlashedValidatorsProcess, ExportEntryQueueDurSec,
                       EmitEthUsdConversionRate, ProcessSyncCommittee,
                       ProcessMissedAttestations, ProcessDoubleMissedAttestations,
                       ProcessRewards, ProcessFutureBlocksProposal,
                       ProcessMissedBlocksFinalized, GetPotentialBlock,
                       ProcessSyncCommitteeReward, ProcessMissedBlocksHead,
                       StartHttpServer]\<rparr> = [16]"
    by (simp add: missed_attestations_slots_def)
  have probe: "process_missed_attestations beacon_42_dead OTHER window_42 1 labels_42
                 labelled_state
               = Inr ([42],
                      labelled_state
                        \<lparr>requests := [LivenessRequest OTHER 0 [42]],
                         metric_missed_attestations_count := 1,
                         console := [MissedAttestation [''0xaaaaaaaa''] 0 0],
                         missed_attestations_per_validator_count :=
                           Some [([(''operator'', ''alice'')], 1)]\<rparr>)"
    by (simp add: process_missed_attestations_def report_missed_def window_for_missed_def
          window_42_def validator_42_def P_def beacon_42_dead_def labels_42_def
          labelled_state_def initial_state_def inc_per_validator_def inc_each_def Let_def)
  show ?thesis
    using main h2 h3 h5 h6 run_16 slots probe without
    by (simp add: NB_SLOT_PER_EPOCH_def labels_42_def pubkey_of_def validator_42_def)
qed

text \<open>
  Without a labels map, validator 42 is reported dead at epoch 1, the gauge and the
  console line follow, but no per-validator counter is incremented: there is none.
\<close>

theorem missed_attestations_without_labels:
  "process_missed_attestations beacon_42_dead OTHER window_42 1 [] initial_state
     = Inr ([42],
            initial_state
              \<lparr>requests := [LivenessRequest OTHER 0 [42]],
               metric_missed_attestations_count := 1,
               console := [MissedAttestation [''0xaaaaaaaa''] 0 0]\<rparr>)
   \<and> missed_attestations_per_validator_count
        (initial_state
           \<lparr>requests := [LivenessRequest OTHER 0 [42]],
            metric_missed_attestations_count := 1,
            console := [MissedAttestation [''0xaaaaaaaa''] 0 0]\<rparr>) = None"
  by (simp add: process_missed_attestations_def report_missed_def window_for_missed_def
        window_42_def validator_42_def P_def beacon_42_dead_def initial_state_def
        inc_per_validator_def Let_def)

section \<open>Exceptions in the loop\<close>

lemma first_raise_None:
  "first_raise env slot cs = None \<longleftrightarrow> (\<forall>c \<in> set cs. raises env slot c = None)"
  by (induction cs) (auto split: option.splits)

lemma first_raise_first:
  assumes "\<forall>b \<in> set before. raises env slot b = None"
    and "raises env slot c = Some e"
  shows "first_raise env slot (before @ c # after) = Some (raised_as c e)"
  using assms by (induction before) (auto simp: raised_as_def)

lemma loop_body_iteration_calls:
  "loop_body env (idx, slot) hs =
     (case first_raise env slot (iteration_calls env hs idx slot) of
        Some e \<Rightarrow> Inl e
      | None \<Rightarrow> loop_body env (idx, slot) hs)"
  by (auto simp: loop_body_def iteration_calls_def Let_def split: option.splits)

text \<open>
  Claim C1, as the code has it. The loop has no handler around its calls, before genesis
  or after: when a call of an iteration raises, the calls before it having returned, the
  loop ends with the exception of that call, whatever slots were to follow. The only
  exception that the loop replaces is ValueError of the two loaders of the watched set,
  which leaves the loop as BadParameter.
\<close>

theorem exception_ends_loop:
  assumes "iteration_calls env hs idx slot = before @ c # after"
    and "\<forall>b \<in> set before. raises env slot b = None"
    and "raises env slot c = Some e"
  shows "handler_loop env hs ((idx, slot) # rest)
           = Inl (if (c = GetOurPubkeys \<or> c = GetOurLabels) \<and> e = ValueError
                  then BadParameter else e)"
proof -
  have "first_raise env slot (iteration_calls env hs idx slot) = Some (raised_as c e)"
    unfolding assms(1) using assms(2,3) by (rule first_raise_first)
  then have "loop_body env (idx, slot) hs = Inl (raised_as c e)"
    by (subst loop_body_iteration_calls) simp
  then show ?thesis
    by (simp add: raised_as_def)
qed

text \<open>
  The duties request fails at slot 0, slot 1 being next; the file of the watched pubkeys
  is invalid at slot 0; the liveness file cannot be written at slot -1, before genesis.
\<close>

theorem exception_ends_loop_witness:
  "iteration_calls failing_environment initial_handler_state 0 0
     = [GetOurPubkeys, GetOurLabels, InitPerValidatorCounters, GetStatusToIndexToValidator,
        ExitedValidatorsProcess, SlashedValidatorsProcess, ExportEntryQueueDurSec,
        EmitEthUsdConversionRate, ProcessSyncCommittee]
       @ ProcessFutureBlocksProposal
       # [ProcessMissedBlocksFinalized, GetPotentialBlock, ProcessSyncCommitteeReward,
          ProcessMissedBlocksHead, StartHttpServer]
   \<and> raises failing_environment 0 ProcessFutureBlocksProposal = Some HTTPError
   \<and> handler_loop failing_environment initial_handler_state [(0, 0), (1, 1)] = Inl HTTPError
   \<and> raises invalid_pubkeys_environment 0 GetOurPubkeys = Some ValueError
   \<and> handler_loop invalid_pubkeys_environment initial_handler_state [(0, 0), (1, 1)]
       = Inl BadParameter
   \<and> iteration_calls unwritable_liveness_environment initial_handler_state 0 (- 1)
       = [WriteLivenessFile]
   \<and> raises unwritable_liveness_environment (- 1) WriteLivenessFile = Some OSError
   \<and> handler_loop unwritable_liveness_environment initial_handler_state [(0, - 1), (1, 0)]
       = Inl OSError"
proof -
  have calls_0: "iteration_calls env initial_handler_state 0 0
     = [GetOurPubkeys, GetOurLabels, InitPerValidatorCounters, GetStatusToIndexToValidator,
        ExitedValidatorsProcess, SlashedValidatorsProcess, ExportEntryQueueDurSec,
        EmitEthUsdConversionRate, ProcessSyncCommittee]
       @ ProcessFutureBlocksProposal
       # [ProcessMissedBlocksFinalized, GetPotentialBlock, ProcessSyncCommitteeReward,
          ProcessMissedBlocksHead, StartHttpServer]"
    if "env = failing_environment \<or> env = invalid_pubkeys_environment" for env
    using that
    by (auto simp: iteration_calls_def slot_calls_def failing_environment_def
          invalid_pubkeys_environment_def quiet_environment_def initial_handler_state_def
          is_new_epoch_at_def should_process_missed_attestations_def
          should_process_rewards_def NB_SLOT_PER_EPOCH_def SLOT_FOR_REWARDS_PROCESS_def
          SLOT_FOR_MISSED_ATTESTATIONS_PROCESS_def)
  have f1: "iteration_calls failing_environment initial_handler_state 0 0
     = [GetOurPubkeys, GetOurLabels, InitPerValidatorCounters, GetStatusToIndexToValidator,
        ExitedValidatorsProcess, SlashedValidatorsProcess, ExportEntryQueueDurSec,
        EmitEthUsdConversionRate, ProcessSyncCommittee]
       @ ProcessFutureBlocksProposal
       # [ProcessMissedBlocksFinalized, GetPotentialBlock, ProcessSyncCommitteeReward,
          ProcessMissedBlocksHead, StartHttpServer]"
    by (rule calls_0) simp
  have f2: "\<forall>b \<in> set [GetOurPubkeys, GetOurLabels, InitPerValidatorCounters,
                         GetStatusToIndexToValidator, ExitedValidatorsProcess,
                         SlashedValidatorsProcess, ExportEntryQueueDurSec,
                         EmitEthUsdConversionRate, ProcessSyncCommittee].
              raises failing_environment 0 b = None"
    by (simp add: failing_environment_def)
  have f3: "raises failing_environment 0 ProcessFutureBlocksProposal = Some HTTPError"
    by (simp add: failing_environment_def)
  have p1: "iteration_calls invalid_pubkeys_environment initial_handler_state 0 0
     = [] @ GetOurPubkeys
       # [GetOurLabels, InitPerValidatorCounters, GetStatusToIndexToValidator,
          ExitedValidatorsProcess, SlashedValidatorsProcess, ExportEntryQueueDurSec,
          EmitEthUsdConversionRate, ProcessSyncCommittee, ProcessFutureBlocksProposal,
          ProcessMissedBlocksFinalized, GetPotentialBlock, ProcessSyncCommitteeReward,
          ProcessMissedBlocksHead, StartHttpServer]"
    using calls_0 [of invalid_pubkeys_environment] by simp
  have p2: "\<forall>b \<in> set []. raises invalid_pubkeys_environment 0 b = None"
    by simp
  have p3: "raises invalid_pubkeys_environment 0 GetOurPubkeys = Some ValueError"
    by (simp add: invalid_pubkeys_environment_def)
  have g1: "iteration_calls unwritable_liveness_environment initial_handler_state 0 (- 1)
     = [] @ WriteLivenessFile # []"
    by (simp add: iteration_calls_def unwritable_liveness_environment_def)
  have g2: "\<forall>b \<in> set []. raises unwritable_liveness_environment (- 1) b = None"
    by simp
  have g3: "raises unwritable_liveness_environment (- 1) WriteLivenessFile = Some OSError"
    by (simp add: unwritable_liveness_environment_def)
  note duties = exception_ends_loop [OF f1 f2 f3, of "[(1, 1)]"]
  note pubkeys = exception_ends_loop [OF p1 p2 p3, of "[(1, 1)]"]
  note liveness = exception_ends_loop [OF g1 g2 g3, of "[(1, 0)]"]
  have g1': "iteration_calls unwritable_liveness_environment initial_handler_state 0 (- 1)
     = [WriteLivenessFile]"
    using g1 by simp
  show ?thesis
    using f1 f3 p3 g1' g3 duties pubkeys liveness by simp
qed

text \<open>
  The probe of future block proposals raises at slot 0: the loop over slots 0 and 1 ends
  with that exception instead of going on to slot 1.
\<close>

theorem probe_exception_stops_loop:
  "handler_loop failing_environment initial_handler_state (enumerate_slots 0 2) = Inl HTTPError"
  by (simp add: eval_nat_numeral enumerate_slots_def loop_body_def slot_calls_def
        failing_environment_def quiet_environment_def initial_handler_state_def
        is_new_epoch_at_def should_process_missed_attestations_def should_process_rewards_def
        NB_SLOT_PER_EPOCH_def SLOT_FOR_REWARDS_PROCESS_def
        SLOT_FOR_MISSED_ATTESTATIONS_PROCESS_def)

section \<open>The start of the metrics server\<close>

lemma server_started_iff:
  "handler_loop env initial_handler_state (enumerate_slots first n) = Inr hs \<Longrightarrow>
     http_server_started hs \<longleftrightarrow> 0 < n \<and> 0 \<le> first"
proof (induction n arbitrary: hs)
  case 0
  then show ?case
    by (auto simp: enumerate_slots_def initial_handler_state_def)
next
  case (Suc n)
  from Suc.prems obtain hs0 where
    run: "handler_loop env initial_handler_state (enumerate_slots first n) = Inr hs0"
    and body: "loop_body env (n, first + int n) hs0 = Inr hs"
    by (auto simp: enumerate_slots_Suc handler_loop_append split: sum.splits)
  note IH = Suc.IH [OF run]
  from body have "http_server_started hs =
      (if first + int n < 0 then http_server_started hs0 else http_server_started hs0 \<or> n = 0)"
    by (auto simp: loop_body_def Let_def split: if_splits option.splits)
  with IH show ?case by auto
qed

text \<open>
  Claim C7 against the code. \<open>start_http_server\<close> is called at the end of the iteration
  with \<open>idx = 0\<close>, which the \<open>continue\<close> of a negative slot skips: after any number of
  slots processed, the server has been started if and only if the first slot of the run
  was not negative. A run that begins before genesis never starts it.
\<close>

theorem server_started_only_when_first_slot_not_negative:
  assumes "handler_loop env initial_handler_state (enumerate_slots first n) = Inr hs"
  shows "http_server_started hs \<longleftrightarrow> 0 < n \<and> 0 \<le> first"
  using assms by (rule server_started_iff)

lemma run_before_genesis:
  "handler_loop quiet_environment initial_handler_state (enumerate_slots (- 1) 2) =
     Inr \<lparr>previous_epoch = Some 0, last_missed_attestations_process_epoch = None,
          last_rewards_process_epoch = None, http_server_started = False,
          calls = map (Pair 0)
            [GetOurPubkeys, GetOurLabels, InitPerValidatorCounters,
             GetStatusToIndexToValidator, ExitedValidatorsProcess, SlashedValidatorsProcess,
             ExportEntryQueueDurSec, EmitEthUsdConversionRate, ProcessSyncCommittee,
             ProcessFutureBlocksProposal, ProcessMissedBlocksFinalized, GetPotentialBlock,
             ProcessSyncCommitteeReward, ProcessMissedBlocksHead]\<rparr>"
  by (simp add: eval_nat_numeral enumerate_slots_def loop_body_def slot_calls_def
        quiet_environment_def initial_handler_state_def is_new_epoch_at_def
        should_process_missed_attestations_def should_process_rewards_def
        NB_SLOT_PER_EPOCH_def SLOT_FOR_REWARDS_PROCESS_def
        SLOT_FOR_MISSED_ATTESTATIONS_PROCESS_def)

text \<open>
  A run that begins one slot before genesis: slot 0 is processed, with all its calls,
  and the server is not started.
\<close>

theorem server_not_started_before_genesis:
  "(\<exists>hs. handler_loop quiet_environment initial_handler_state (enumerate_slots (- 1) 2) = Inr hs
         \<and> (0, ProcessFutureBlocksProposal) \<in> set (calls hs)
         \<and> http_server_started hs = False)"
  using server_started_only_when_first_slot_not_negative [OF run_before_genesis]
    run_before_genesis
  by simp

section \<open>Future block proposals\<close>



text \<open>
  At a new epoch, with a labels map that is not empty, an upcoming proposal and a watched
  proposer in the current epoch, the probe reaches the relay check and ends with
  TypeError.
\<close>

lemma future_blocks_proposal_relay_check:
  assumes "get_proposer_duties beacon (slot div NB_SLOT_PER_EPOCH) = Inr current"
    and "get_proposer_duties beacon (slot div NB_SLOT_PER_EPOCH + 1) = Inr following"
    and "our_labels \<noteq> []"
    and "filter (\<lambda>item. duty_pubkey item \<in> set our_pubkeys \<and> duty_slot item \<ge> slot)
           (current @ following) \<noteq> []"
    and "filter (\<lambda>item. duty_pubkey item \<in> set our_pubkeys) current \<noteq> []"
  shows "process_future_blocks_proposal beacon our_pubkeys slot True our_labels st
           = Inl TypeError"
  using assms by (simp add: process_future_blocks_proposal_def Let_def)




section \<open>The per-block relay check\<close>

lemma proposer_payload_delivered_Json:
  "payload_delivered http url slot t = Json js \<Longrightarrow> length js \<le> 1 \<Longrightarrow>
     proposer_payload_delivered http url slot t st
       = (Inr (if length js = 1 then Some (js ! 0) else None),
          st\<lparr>requests := requests st @ [PayloadDeliveredRequest url slot]\<rparr>)"
  by (subst proposer_payload_delivered.simps) simp

lemma is_proposer_payload_delivered_Json:
  "payload_delivered http url slot t = Json js \<Longrightarrow> length js \<le> 1 \<Longrightarrow>
     is_proposer_payload_delivered http url slot t st
       = (Inr (length js = 1),
          st\<lparr>requests := requests st @ [PayloadDeliveredRequest url slot]\<rparr>)"
  by (subst is_proposer_payload_delivered.simps) simp

lemma short_list_cases:
  "length js \<le> 1 \<Longrightarrow> js = [] \<or> (\<exists>p. js = [p])"
  by (cases js) auto

lemma delivered_records_Cons:
  "delivered_records answers (url # urls)
     = map (Pair url) (answers url) @ delivered_records answers urls"
  by (simp add: delivered_records_def)

lemma delivered_records_append:
  "delivered_records answers (xs @ ys)
     = delivered_records answers xs @ delivered_records answers ys"
  by (simp add: delivered_records_def)

lemma any_delivered_answers:
  assumes "\<forall>url \<in> set urls. payload_delivered http url slot 0 = Json (answers url)
                              \<and> length (answers url) \<le> 1"
  shows "\<exists>st'. any_delivered http urls slot st = Inr (delivered_records answers urls \<noteq> [], st')
           \<and> metric_bad_relay_count st' = metric_bad_relay_count st
           \<and> console st' = console st
           \<and> our_mev_boost_reward_per_validator_count st'
               = our_mev_boost_reward_per_validator_count st"
  using assms
proof (induction urls arbitrary: st)
  case Nil
  then show ?case by (simp add: delivered_records_def)
next
  case (Cons url urls)
  then have a: "payload_delivered http url slot 0 = Json (answers url)"
    and l: "length (answers url) \<le> 1"
    and rest: "\<forall>u \<in> set urls. payload_delivered http u slot 0 = Json (answers u)
                                \<and> length (answers u) \<le> 1"
    by auto
  note step = is_proposer_payload_delivered_Json [OF a l]
  from short_list_cases [OF l] show ?case
  proof
    assume e: "answers url = []"
    from Cons.IH [OF rest, of "st\<lparr>requests := requests st @ [PayloadDeliveredRequest url slot]\<rparr>"]
    show ?thesis
      using e by (auto simp: step delivered_records_def)
  next
    assume "\<exists>p. answers url = [p]"
    then show ?thesis
      by (auto simp: step delivered_records_def)
  qed
qed

lemma process_urls_answers:
  assumes "\<forall>url \<in> set urls. payload_delivered http url slot 0 = Json (answers url)
                              \<and> length (answers url) \<le> 1"
    and "countable_records true_div amount our_labels (delivered_records answers urls)"
    and "delivered_records answers urls \<noteq> [] \<longrightarrow>
           our_mev_boost_reward_per_validator_count st \<noteq> None"
  shows "\<exists>st'. process_urls true_div http urls slot our_labels known st
                 = Inr (known \<or> delivered_records answers urls \<noteq> [], st')
           \<and> metric_bad_relay_count st' = metric_bad_relay_count st
           \<and> console st' = console st
           \<and> our_mev_boost_reward_per_validator_count st'
               = map_option (\<lambda>c. c @ map (mev_increment amount our_labels)
                                         (delivered_records answers urls))
                   (our_mev_boost_reward_per_validator_count st)"
  using assms
proof (induction urls arbitrary: st known)
  case Nil
  then show ?case by (simp add: delivered_records_def option.map_ident)
next
  case (Cons url urls)
  then have a: "payload_delivered http url slot 0 = Json (answers url)"
    and l: "length (answers url) \<le> 1"
    and rest: "\<forall>u \<in> set urls. payload_delivered http u slot 0 = Json (answers u)
                                \<and> length (answers u) \<le> 1"
    by auto
  have rest_countable:
    "countable_records true_div amount our_labels (delivered_records answers urls)"
    using Cons.prems(2) by (simp add: countable_records_def delivered_records_Cons)
  note step = proposer_payload_delivered_Json [OF a l]
  from short_list_cases [OF l] show ?case
  proof
    assume e: "answers url = []"
    let ?st1 = "st\<lparr>requests := requests st @ [PayloadDeliveredRequest url slot]\<rparr>"
    have c: "delivered_records answers urls \<noteq> [] \<longrightarrow>
               our_mev_boost_reward_per_validator_count ?st1 \<noteq> None"
      using Cons.prems(3) e by (simp add: delivered_records_def)
    from Cons.IH [OF rest rest_countable c, of known]
    show ?thesis
      using e by (auto simp: step delivered_records_def)
  next
    assume "\<exists>p. answers url = [p]"
    then obtain p where p: "answers url = [p]" by auto
    from Cons.prems(2) p obtain ls relay where
      ls: "map_of our_labels (ppd_proposer_pubkey p) = Some ls"
      and relay: "map_of RELAY_MAPPING url = Some relay"
      and amount: "true_div (ppd_value p) (10 ^ 9) = Inr (amount p)"
      and sign: "0 \<le> amount p"
      by (auto simp: countable_records_def delivered_records_Cons)
    from Cons.prems(3) p obtain c where
      c: "our_mev_boost_reward_per_validator_count st = Some c"
      by (auto simp: delivered_records_def)
    let ?st2 = "st\<lparr>requests := requests st @ [PayloadDeliveredRequest url slot],
                     our_mev_boost_reward_per_validator_count :=
                       Some (c @ [(AList.update RELAY_KEY relay ls, amount p)])\<rparr>"
    have c2: "delivered_records answers urls \<noteq> [] \<longrightarrow>
               our_mev_boost_reward_per_validator_count ?st2 \<noteq> None"
      by simp
    from Cons.IH [OF rest rest_countable c2, of True]
    show ?thesis
      using p ls relay c amount sign
      by (auto simp: step delivered_records_def mev_increment_def labels_of_def)
  qed
qed

text \<open>
  Claim C4, as the code has it. With relay URLs configured and every relay answering its
  first request with at most one record: if no relay returns a record, the bad-relay
  counter is incremented by one, the unknown-builder line is printed and the MEV-boost
  reward counter is left as it is, with or without labels. If some relay returns a
  record, the bad-relay counter and the console are left as they are; with a labels map
  that is not empty (the proposer of every record having labels, the URL of every
  delivering relay being in \<open>RELAY_MAPPING\<close>, the quotient \<open>value / 10 ** 9\<close> of every
  record being computed and not negative, the counter being created) the MEV-boost reward
  counter gets one increment per record, of that quotient, labelled with the display name
  of the relay; with an empty labels map it gets none.
\<close>

theorem relay_check_counters:
  assumes urls: "urls \<noteq> []"
    and answers: "\<forall>url \<in> set urls. payload_delivered http url slot 0 = Json (answers url)
                                    \<and> length (answers url) \<le> 1"
    and labelled: "our_labels \<noteq> [] \<longrightarrow>
            countable_records true_div amount our_labels (delivered_records answers urls)"
    and counter: "our_labels \<noteq> [] \<and> delivered_records answers urls \<noteq> [] \<longrightarrow>
            our_mev_boost_reward_per_validator_count st \<noteq> None"
  shows "\<exists>st'. process true_div http urls slot our_labels st = Inr st'
           \<and> metric_bad_relay_count st' = metric_bad_relay_count st
               + (if delivered_records answers urls = [] then 1 else 0)
           \<and> console st' = console st
               @ (if delivered_records answers urls = [] then [UnknownBuilder] else [])
           \<and> our_mev_boost_reward_per_validator_count st' =
               (if our_labels = [] then our_mev_boost_reward_per_validator_count st
                else map_option (\<lambda>c. c @ map (mev_increment amount our_labels)
                                            (delivered_records answers urls))
                       (our_mev_boost_reward_per_validator_count st))"
proof (cases "our_labels = []")
  case True
  from any_delivered_answers [OF answers, of st] obtain st1 where
    "any_delivered http urls slot st = Inr (delivered_records answers urls \<noteq> [], st1)"
    "metric_bad_relay_count st1 = metric_bad_relay_count st"
    "console st1 = console st"
    "our_mev_boost_reward_per_validator_count st1 = our_mev_boost_reward_per_validator_count st"
    by blast
  then show ?thesis
    using True urls by (simp add: process_def unknown_builder_def)
next
  case False
  then have l: "countable_records true_div amount our_labels (delivered_records answers urls)"
    and c: "delivered_records answers urls \<noteq> [] \<longrightarrow>
              our_mev_boost_reward_per_validator_count st \<noteq> None"
    using labelled counter by auto
  from process_urls_answers [OF answers l c, of False] obtain st1 where
    "process_urls true_div http urls slot our_labels False st
       = Inr (delivered_records answers urls \<noteq> [], st1)"
    "metric_bad_relay_count st1 = metric_bad_relay_count st"
    "console st1 = console st"
    "our_mev_boost_reward_per_validator_count st1 =
       map_option (\<lambda>c. c @ map (mev_increment amount our_labels)
                                (delivered_records answers urls))
         (our_mev_boost_reward_per_validator_count st)"
    by auto
  then show ?thesis
    using False urls by (simp add: process_def unknown_builder_def)
qed

lemma flashbots_known: "map_of RELAY_MAPPING flashbots_url = Some ''flashbots''"
  by (simp add: RELAY_MAPPING_def flashbots_url_def)

lemma unlisted_unknown: "map_of RELAY_MAPPING unlisted_url = None"
  by (simp add: RELAY_MAPPING_def unlisted_url_def)

text \<open>
  The flashbots relay delivers the block of slot 120, labels loaded; and no relay
  delivers it.
\<close>

theorem relay_check_counters_witness:
  "[flashbots_url] \<noteq> []
   \<and> payload_delivered http_delivering flashbots_url 120 0 = Json [payload_120]
   \<and> length [payload_120] \<le> 1
   \<and> labels_42 \<noteq> []
   \<and> countable_records exact_div (\<lambda>p. 50000000) labels_42 [(flashbots_url, payload_120)]
   \<and> our_mev_boost_reward_per_validator_count labelled_state \<noteq> None
   \<and> (\<exists>st'. process exact_div http_delivering [flashbots_url] 120 labels_42 labelled_state
               = Inr st'
          \<and> metric_bad_relay_count st' = 0
          \<and> console st' = []
          \<and> our_mev_boost_reward_per_validator_count st' =
              Some [([(''operator'', ''alice''), (''mev_relay'', ''flashbots'')], 50000000)])
   \<and> payload_delivered http_silent flashbots_url 120 0 = Json []
   \<and> (\<exists>st'. process exact_div http_silent [flashbots_url] 120 labels_42 labelled_state
               = Inr st'
          \<and> metric_bad_relay_count st' = 1
          \<and> console st' = [UnknownBuilder]
          \<and> our_mev_boost_reward_per_validator_count st' = Some [])"
proof -
  have h1: "[flashbots_url] \<noteq> []" by simp
  have h2: "\<forall>url \<in> set [flashbots_url].
              payload_delivered http_delivering url 120 0 = Json ((\<lambda>u. [payload_120]) url)
              \<and> length ((\<lambda>u. [payload_120]) url) \<le> 1"
    by (simp add: http_delivering_def)
  have h3: "labels_42 \<noteq> [] \<longrightarrow>
            countable_records exact_div (\<lambda>p. 50000000) labels_42
              (delivered_records (\<lambda>u. [payload_120]) [flashbots_url])"
    by (simp add: countable_records_def delivered_records_def flashbots_known labels_42_def
          payload_120_def exact_div_def)
  have h4: "labels_42 \<noteq> [] \<and> delivered_records (\<lambda>u. [payload_120]) [flashbots_url] \<noteq> [] \<longrightarrow>
            our_mev_boost_reward_per_validator_count labelled_state \<noteq> None"
    by (simp add: labelled_state_def)
  have s2: "\<forall>url \<in> set [flashbots_url].
              payload_delivered http_silent url 120 0 = Json ((\<lambda>u. []) url)
              \<and> length ((\<lambda>u. []) url) \<le> 1"
    by (simp add: http_silent_def)
  have s3: "labels_42 \<noteq> [] \<longrightarrow>
            countable_records exact_div (\<lambda>p. 50000000) labels_42
              (delivered_records (\<lambda>u. []) [flashbots_url])"
    by (simp add: countable_records_def delivered_records_def)
  have s4: "labels_42 \<noteq> [] \<and> delivered_records (\<lambda>u. []) [flashbots_url] \<noteq> [] \<longrightarrow>
            our_mev_boost_reward_per_validator_count labelled_state \<noteq> None"
    by (simp add: labelled_state_def)
  note delivering = relay_check_counters [OF h1 h2 h3 h4]
  note silent = relay_check_counters [OF h1 s2 s3 s4]
  show ?thesis
    using delivering silent
    by (simp add: http_delivering_def http_silent_def flashbots_known labels_42_def
          payload_120_def labelled_state_def initial_state_def delivered_records_def
          mev_increment_def labels_of_def RELAY_KEY_def countable_records_def exact_div_def)
qed

text \<open>
  Without a labels map, the relay delivers a record and no MEV-boost reward counter is
  incremented: only the request is sent.
\<close>

theorem relay_check_without_labels:
  "process exact_div http_delivering [flashbots_url] 120 [] initial_state
     = Inr (initial_state\<lparr>requests := [PayloadDeliveredRequest flashbots_url 120]\<rparr>)
   \<and> our_mev_boost_reward_per_validator_count
        (initial_state\<lparr>requests := [PayloadDeliveredRequest flashbots_url 120]\<rparr>) = None"
  by (simp add: process_def is_proposer_payload_delivered.simps http_delivering_def
        initial_state_def)

text \<open>
  A record whose quotient is negative is refused by the counter: the check ends with
  ValueError at the first such record, the records before it being counted.
\<close>

lemma process_urls_append:
  "process_urls true_div http (xs @ ys) slot our_labels known st =
     (case process_urls true_div http xs slot our_labels known st of
        Inl e \<Rightarrow> Inl e
      | Inr (known', st1) \<Rightarrow> process_urls true_div http ys slot our_labels known' st1)"
  by (induction xs arbitrary: known st)
     (simp_all split: prod.splits sum.splits option.splits)

lemma relay_check_negative_amount:
  assumes labels: "our_labels \<noteq> []"
    and answers: "\<forall>u \<in> set before. payload_delivered http u slot 0 = Json (answers u)
                                     \<and> length (answers u) \<le> 1"
    and countable: "countable_records true_div amount our_labels
                      (delivered_records answers before)"
    and counter: "our_mev_boost_reward_per_validator_count st \<noteq> None"
    and delivered: "payload_delivered http url slot 0 = Json [p]"
    and labelled: "map_of our_labels (ppd_proposer_pubkey p) \<noteq> None"
    and listed: "map_of RELAY_MAPPING url \<noteq> None"
    and quotient: "true_div (ppd_value p) (10 ^ 9) = Inr a"
    and negative: "a < 0"
  shows "process true_div http (before @ url # after) slot our_labels st = Inl ValueError"
proof -
  have c: "delivered_records answers before \<noteq> [] \<longrightarrow>
             our_mev_boost_reward_per_validator_count st \<noteq> None"
    using counter by simp
  from process_urls_answers [OF answers countable c, of False] obtain st1 where
    before: "process_urls true_div http before slot our_labels False st
               = Inr (delivered_records answers before \<noteq> [], st1)"
    and c1: "our_mev_boost_reward_per_validator_count st1 =
               map_option (\<lambda>c. c @ map (mev_increment amount our_labels)
                                        (delivered_records answers before))
                 (our_mev_boost_reward_per_validator_count st)"
    by auto
  have step: "proposer_payload_delivered http url slot 0 st1
                = (Inr (Some p),
                   st1\<lparr>requests := requests st1 @ [PayloadDeliveredRequest url slot]\<rparr>)"
    using proposer_payload_delivered_Json [OF delivered, of st1] by simp
  from counter c1 obtain c' where "our_mev_boost_reward_per_validator_count st1 = Some c'"
    by auto
  then have "process_urls true_div http (url # after) slot our_labels
               (delivered_records answers before \<noteq> []) st1 = Inl ValueError"
    using labelled listed quotient negative by (auto simp: step)
  then show ?thesis
    using labels before by (simp add: process_def process_urls_append)
qed

section \<open>A relay URL outside the mapping\<close>

text \<open>
  Claim C9, as the code has it. A payload delivered by a configured relay whose URL is not
  a key of \<open>RELAY_MAPPING\<close> (the relays before it answering with at most one record each,
  and the records they deliver being counted): with a labels map that is not empty the
  check ends with KeyError, whatever the labels and the counter are, since
  \<open>RELAY_MAPPING[relay_url]\<close> is read for every delivered payload; with an empty labels
  map the same check over the same relays returns, and leaves the bad-relay counter, the
  console and the MEV-boost reward counter as they are.
\<close>

theorem relay_url_outside_mapping:
  assumes labels: "our_labels \<noteq> []"
    and answers: "\<forall>u \<in> set (before @ url # after).
                    payload_delivered http u slot 0 = Json (answers u)
                    \<and> length (answers u) \<le> 1"
    and countable: "countable_records true_div amount our_labels
                      (delivered_records answers before)"
    and counter: "delivered_records answers before \<noteq> [] \<longrightarrow>
                    our_mev_boost_reward_per_validator_count st \<noteq> None"
    and delivered: "answers url \<noteq> []"
    and unlisted: "map_of RELAY_MAPPING url = None"
  shows "process true_div http (before @ url # after) slot our_labels st = Inl KeyError
         \<and> (\<exists>st'. process true_div http (before @ url # after) slot [] st = Inr st'
               \<and> metric_bad_relay_count st' = metric_bad_relay_count st
               \<and> console st' = console st
               \<and> our_mev_boost_reward_per_validator_count st'
                   = our_mev_boost_reward_per_validator_count st)"
proof
  have answers_before: "\<forall>u \<in> set before. payload_delivered http u slot 0 = Json (answers u)
                                           \<and> length (answers u) \<le> 1"
    using answers by simp
  from process_urls_answers [OF answers_before countable counter, of False] obtain st1 where
    before: "process_urls true_div http before slot our_labels False st
               = Inr (delivered_records answers before \<noteq> [], st1)"
    by auto
  from answers have a: "payload_delivered http url slot 0 = Json (answers url)"
    and l: "length (answers url) \<le> 1"
    by auto
  from short_list_cases [OF l] delivered obtain p where p: "answers url = [p]"
    by auto
  have step: "proposer_payload_delivered http url slot 0 st1
                = (Inr (Some p),
                   st1\<lparr>requests := requests st1 @ [PayloadDeliveredRequest url slot]\<rparr>)"
    using proposer_payload_delivered_Json [OF a l, of st1] p by simp
  have "process_urls true_div http (url # after) slot our_labels
          (delivered_records answers before \<noteq> []) st1 = Inl KeyError"
    using unlisted by (simp add: step split: option.splits)
  then show "process true_div http (before @ url # after) slot our_labels st = Inl KeyError"
    using labels before by (simp add: process_def process_urls_append)
next
  have records: "delivered_records answers (before @ url # after) \<noteq> []"
    using delivered by (simp add: delivered_records_append delivered_records_Cons)
  from any_delivered_answers [OF answers, of st] obtain st1 where
    "any_delivered http (before @ url # after) slot st
       = Inr (delivered_records answers (before @ url # after) \<noteq> [], st1)"
    "metric_bad_relay_count st1 = metric_bad_relay_count st"
    "console st1 = console st"
    "our_mev_boost_reward_per_validator_count st1 = our_mev_boost_reward_per_validator_count st"
    by blast
  then show "\<exists>st'. process true_div http (before @ url # after) slot [] st = Inr st'
               \<and> metric_bad_relay_count st' = metric_bad_relay_count st
               \<and> console st' = console st
               \<and> our_mev_boost_reward_per_validator_count st'
                   = our_mev_boost_reward_per_validator_count st"
    using records by (simp add: process_def)
qed

text \<open>
  The flashbots relay and then a relay outside the mapping, each delivering the payload of
  slot 120: with the labels loaded the check ends with KeyError, without labels it
  returns.
\<close>

theorem relay_url_outside_mapping_witness:
  "labels_42 \<noteq> []
   \<and> payload_delivered http_delivering flashbots_url 120 0 = Json [payload_120]
   \<and> payload_delivered http_delivering unlisted_url 120 0 = Json [payload_120]
   \<and> length [payload_120] \<le> 1
   \<and> countable_records exact_div (\<lambda>p. 50000000) labels_42 [(flashbots_url, payload_120)]
   \<and> our_mev_boost_reward_per_validator_count labelled_state \<noteq> None
   \<and> map_of RELAY_MAPPING unlisted_url = None
   \<and> process exact_div http_delivering [flashbots_url, unlisted_url] 120 labels_42
        labelled_state = Inl KeyError
   \<and> (\<exists>st'. process exact_div http_delivering [flashbots_url, unlisted_url] 120 []
               labelled_state = Inr st'
          \<and> metric_bad_relay_count st' = 0
          \<and> console st' = []
          \<and> our_mev_boost_reward_per_validator_count st' = Some [])"
proof -
  have h1: "labels_42 \<noteq> []" by (simp add: labels_42_def)
  have h2: "\<forall>u \<in> set ([flashbots_url] @ unlisted_url # []).
              payload_delivered http_delivering u 120 0 = Json ((\<lambda>u. [payload_120]) u)
              \<and> length ((\<lambda>u. [payload_120]) u) \<le> 1"
    by (simp add: http_delivering_def)
  have h3: "countable_records exact_div (\<lambda>p. 50000000) labels_42
              (delivered_records (\<lambda>u. [payload_120]) [flashbots_url])"
    by (simp add: countable_records_def delivered_records_def flashbots_known labels_42_def
          payload_120_def exact_div_def)
  have h4: "delivered_records (\<lambda>u. [payload_120]) [flashbots_url] \<noteq> [] \<longrightarrow>
            our_mev_boost_reward_per_validator_count labelled_state \<noteq> None"
    by (simp add: labelled_state_def)
  have h5: "(\<lambda>u. [payload_120]) unlisted_url \<noteq> []" by simp
  note main = relay_url_outside_mapping [OF h1 h2 h3 h4 h5 unlisted_unknown]
  show ?thesis
    using main h1 h3
    by (simp add: http_delivering_def unlisted_unknown labelled_state_def initial_state_def
          delivered_records_def)
qed

section \<open>The registration check\<close>

text \<open>
  The retry loop of \<open>__builder_validators\<close>, started at the trial \<open>t\<close>: it sends one request
  for each of the trials from \<open>t\<close> on that raise ConnectionError, up to \<open>MAX_TRIALS\<close>, and
  one more, whose answer it ends with.
\<close>

lemma builder_validators_from:
  assumes "t \<le> MAX_TRIALS"
    and "k = length (takeWhile (\<lambda>u. builder_validators_get http url u = Raises ConnectionError)
                       [t..<MAX_TRIALS])"
  shows "builder_validators http url t st
           = ((case builder_validators_get http url (t + k) of
                 Raises e \<Rightarrow> Inl e
               | Json js \<Rightarrow> Inr js),
              st\<lparr>requests := requests st
                     @ replicate (Suc k) (BuilderValidatorsRequest url)\<rparr>)"
  using assms
proof (induction "MAX_TRIALS - t" arbitrary: t k st)
  case 0
  then have t: "t = MAX_TRIALS" and k: "k = 0" by auto
  show ?case
    by (subst builder_validators.simps)
       (auto simp: t k Let_def split: response.splits)
next
  case (Suc n)
  then have lt: "t < MAX_TRIALS" by simp
  then have upt: "[t..<MAX_TRIALS] = t # [Suc t..<MAX_TRIALS]"
    by (rule upt_conv_Cons)
  show ?case
  proof (cases "builder_validators_get http url t = Raises ConnectionError")
    case True
    define k' where
      "k' = length (takeWhile (\<lambda>u. builder_validators_get http url u = Raises ConnectionError)
                      [Suc t..<MAX_TRIALS])"
    have k: "k = Suc k'"
      using Suc.prems(2) True by (simp add: upt k'_def)
    have n: "n = MAX_TRIALS - Suc t" using Suc.hyps(2) by simp
    have le: "Suc t \<le> MAX_TRIALS" using lt by simp
    note IH = Suc.hyps(1) [OF n le k'_def,
        of "st\<lparr>requests := requests st @ [BuilderValidatorsRequest url]\<rparr>"]
    show ?thesis
      using True lt IH
      by (subst builder_validators.simps) (simp add: k Let_def replicate_append_same)
  next
    case False
    then have k: "k = 0"
      using Suc.prems(2) by (simp add: upt)
    show ?thesis
      using False
      by (subst builder_validators.simps) (auto simp: k Let_def split: response.splits)
  qed
qed

lemma builder_validators_answer:
  "builder_validators http url 0 st
     = ((case relay_answer http url of Raises e \<Rightarrow> Inl e | Json js \<Rightarrow> Inr js),
        st\<lparr>requests := requests st @ relay_requests http url\<rparr>)"
  using builder_validators_from [of 0 "final_trial http url" http url st]
  by (simp add: relay_answer_def relay_requests_def final_trial_def)

lemma final_trial_first:
  "builder_validators_get http url 0 \<noteq> Raises ConnectionError \<Longrightarrow> final_trial http url = 0"
  by (simp add: final_trial_def MAX_TRIALS_def upt_conv_Cons)

lemma listed_for_Nil: "listed_for http pubkeys [] slot = False"
  by (simp add: listed_for_def)

lemma listed_for_retry:
  "relay_answer http url = Raises e \<Longrightarrow>
     listed_for http pubkeys (url # urls) slot = listed_for http pubkeys urls slot"
  by (simp add: listed_for_def)

lemma listed_for_json:
  "relay_answer http url = Json js \<Longrightarrow>
     listed_for http pubkeys (url # urls) slot
       = ((\<exists>item \<in> set js. item_matches pubkeys slot item) \<or> listed_for http pubkeys urls slot)"
  by (simp add: listed_for_def)

lemma mark_registered_at:
  "mark_registered pubkeys item registrations slot
     = map_option (\<lambda>b. b \<or> item_matches pubkeys slot item) (registrations slot)"
  by (cases "registrations slot") (auto simp: mark_registered_def item_matches_def)

lemma fold_mark_registered:
  "fold (mark_registered pubkeys) items registrations slot
     = map_option (\<lambda>b. b \<or> (\<exists>item \<in> set items. item_matches pubkeys slot item))
         (registrations slot)"
proof (induction items arbitrary: registrations)
  case Nil
  then show ?case by (simp add: option.map_ident)
next
  case (Cons item items)
  have "fold (mark_registered pubkeys) (item # items) registrations slot
          = fold (mark_registered pubkeys) items (mark_registered pubkeys item registrations) slot"
    by simp
  also have "\<dots> = map_option (\<lambda>b. b \<or> (\<exists>item \<in> set items. item_matches pubkeys slot item))
                     (mark_registered pubkeys item registrations slot)"
    by (rule Cons.IH)
  also have "\<dots> = map_option
                     (\<lambda>b. b \<or> (\<exists>item \<in> set (item # items). item_matches pubkeys slot item))
                     (registrations slot)"
    by (cases "registrations slot") (auto simp: mark_registered_at)
  finally show ?case .
qed

lemma check_urls_result:
  assumes "\<forall>url \<in> set urls. relay_answer http url = Raises RetryError
                              \<or> (\<exists>js. relay_answer http url = Json js)"
  shows "\<exists>registrations' st'.
           check_urls http urls pubkeys registrations st = Inr (registrations', st')
           \<and> (\<forall>slot. registrations' slot =
                 map_option (\<lambda>b. b \<or> listed_for http pubkeys urls slot) (registrations slot))
           \<and> requests st' = requests st @ concat (map (relay_requests http) urls)
           \<and> console st' = console st
               @ map CannotContactRelay
                   (filter (\<lambda>url. relay_answer http url = Raises RetryError) urls)"
  using assms
proof (induction urls arbitrary: registrations st)
  case Nil
  then show ?case by (simp add: listed_for_Nil option.map_ident)
next
  case (Cons url urls)
  then have rest: "\<forall>u \<in> set urls. relay_answer http u = Raises RetryError
                              \<or> (\<exists>js. relay_answer http u = Json js)"
    by simp
  from Cons.prems consider
    (retry) "relay_answer http url = Raises RetryError"
    | (json) js where "relay_answer http url = Json js"
    by auto
  then show ?case
  proof cases
    case retry
    define st1 where
      "st1 = st\<lparr>requests := requests st @ relay_requests http url\<rparr>
               \<lparr>console := console st @ [CannotContactRelay url]\<rparr>"
    from Cons.IH [OF rest, of registrations st1] obtain registrations' st' where
      run: "check_urls http urls pubkeys registrations st1 = Inr (registrations', st')"
      and regs: "\<forall>slot. registrations' slot =
                   map_option (\<lambda>b. b \<or> listed_for http pubkeys urls slot) (registrations slot)"
      and reqs: "requests st' = requests st1 @ concat (map (relay_requests http) urls)"
      and cons: "console st' = console st1
                   @ map CannotContactRelay
                       (filter (\<lambda>url. relay_answer http url = Raises RetryError)
                          urls)"
      by blast
    have "check_urls http (url # urls) pubkeys registrations st = Inr (registrations', st')"
      using run retry by (simp add: builder_validators_answer st1_def)
    moreover have "\<forall>slot. registrations' slot =
        map_option (\<lambda>b. b \<or> listed_for http pubkeys (url # urls) slot) (registrations slot)"
      using regs by (simp add: listed_for_retry [OF retry])
    moreover have "requests st' = requests st @ concat (map (relay_requests http) (url # urls))"
      using reqs by (simp add: st1_def)
    moreover have "console st' = console st
        @ map CannotContactRelay
            (filter (\<lambda>url. relay_answer http url = Raises RetryError) (url # urls))"
      using cons retry by (simp add: st1_def)
    ultimately show ?thesis by blast
  next
    case json
    define st1 where "st1 = st\<lparr>requests := requests st @ relay_requests http url\<rparr>"
    define registrations1 where
      "registrations1 = fold (mark_registered pubkeys) js registrations"
    from Cons.IH [OF rest, of registrations1 st1] obtain registrations' st' where
      run: "check_urls http urls pubkeys registrations1 st1 = Inr (registrations', st')"
      and regs: "\<forall>slot. registrations' slot =
                   map_option (\<lambda>b. b \<or> listed_for http pubkeys urls slot) (registrations1 slot)"
      and reqs: "requests st' = requests st1 @ concat (map (relay_requests http) urls)"
      and cons: "console st' = console st1
                   @ map CannotContactRelay
                       (filter (\<lambda>url. relay_answer http url = Raises RetryError)
                          urls)"
      by blast
    have "check_urls http (url # urls) pubkeys registrations st = Inr (registrations', st')"
      using run json by (simp add: builder_validators_answer st1_def registrations1_def)
    moreover have "\<forall>slot. registrations' slot =
        map_option (\<lambda>b. b \<or> listed_for http pubkeys (url # urls) slot) (registrations slot)"
    proof
      fix slot
      show "registrations' slot =
        map_option (\<lambda>b. b \<or> listed_for http pubkeys (url # urls) slot) (registrations slot)"
        using regs
        by (cases "registrations slot")
           (auto simp: registrations1_def fold_mark_registered listed_for_json [OF json])
    qed
    moreover have "requests st' = requests st @ concat (map (relay_requests http) (url # urls))"
      using reqs by (simp add: st1_def)
    moreover have "console st' = console st
        @ map CannotContactRelay
            (filter (\<lambda>url. relay_answer http url = Raises RetryError) (url # urls))"
      using cons json by (simp add: st1_def)
    ultimately show ?thesis by blast
  qed
qed


lemma registrations_init:
  "fold (\<lambda>item r. r(duty_slot item \<mapsto> False)) ps m slot =
     (if slot \<in> duty_slot ` set ps then Some False else m slot)"
proof (induction ps arbitrary: m)
  case Nil
  then show ?case by simp
next
  case (Cons x xs)
  have "fold (\<lambda>item r. r(duty_slot item \<mapsto> False)) (x # xs) m slot
          = fold (\<lambda>item r. r(duty_slot item \<mapsto> False)) xs (m(duty_slot x \<mapsto> False)) slot"
    by (simp only: fold_simps comp_apply)
  also have "\<dots> = (if slot \<in> duty_slot ` set xs then Some False
                    else (m(duty_slot x \<mapsto> False)) slot)"
    by (rule Cons.IH)
  also have "\<dots> = (if slot \<in> duty_slot ` set (x # xs) then Some False else m slot)"
    by auto
  finally show ?case .
qed

lemma pubkeys_untouched:
  "slot \<notin> duty_slot ` set ps \<Longrightarrow>
     fold (\<lambda>item p. p(duty_slot item \<mapsto> duty_pubkey item)) ps m slot = m slot"
proof (induction ps arbitrary: m)
  case Nil
  then show ?case by simp
next
  case (Cons x xs)
  then have xs: "slot \<notin> duty_slot ` set xs" and x: "slot \<noteq> duty_slot x" by auto
  have "fold (\<lambda>item p. p(duty_slot item \<mapsto> duty_pubkey item)) (x # xs) m slot
          = fold (\<lambda>item p. p(duty_slot item \<mapsto> duty_pubkey item)) xs
              (m(duty_slot x \<mapsto> duty_pubkey x)) slot"
    by (simp only: fold_simps comp_apply)
  also have "\<dots> = (m(duty_slot x \<mapsto> duty_pubkey x)) slot"
    using xs by (rule Cons.IH)
  also have "\<dots> = m slot"
    using x by simp
  finally show ?case .
qed

lemma pubkeys_init:
  assumes "\<forall>d \<in> set ps. \<forall>d' \<in> set ps.
             duty_slot d = duty_slot d' \<longrightarrow> duty_pubkey d = duty_pubkey d'"
    and "d \<in> set ps"
  shows "fold (\<lambda>item p. p(duty_slot item \<mapsto> duty_pubkey item)) ps m (duty_slot d)
           = Some (duty_pubkey d)"
  using assms
proof (induction ps arbitrary: m d)
  case Nil
  then show ?case by simp
next
  case (Cons x xs)
  have sub: "\<forall>d \<in> set xs. \<forall>d' \<in> set xs.
               duty_slot d = duty_slot d' \<longrightarrow> duty_pubkey d = duty_pubkey d'"
  proof (intro ballI impI)
    fix a b
    assume "a \<in> set xs" "b \<in> set xs" "duty_slot a = duty_slot b"
    then show "duty_pubkey a = duty_pubkey b"
      using Cons.prems(1) [rule_format, of a b] by simp
  qed
  have unfold: "fold (\<lambda>item p. p(duty_slot item \<mapsto> duty_pubkey item)) (x # xs) m (duty_slot d)
          = fold (\<lambda>item p. p(duty_slot item \<mapsto> duty_pubkey item)) xs
              (m(duty_slot x \<mapsto> duty_pubkey x)) (duty_slot d)"
    by (simp only: fold_simps comp_apply)
  show ?case
  proof (cases "duty_slot d \<in> duty_slot ` set xs")
    case True
    then obtain d' where d': "d' \<in> set xs" "duty_slot d' = duty_slot d" by auto
    have in': "d' \<in> set (x # xs)" using d'(1) by simp
    have same: "duty_pubkey d' = duty_pubkey d"
      by (rule Cons.prems(1) [rule_format, OF in' Cons.prems(2) d'(2)])
    have "fold (\<lambda>item p. p(duty_slot item \<mapsto> duty_pubkey item)) xs
              (m(duty_slot x \<mapsto> duty_pubkey x)) (duty_slot d') = Some (duty_pubkey d')"
      by (rule Cons.IH [OF sub d'(1)])
    then have "fold (\<lambda>item p. p(duty_slot item \<mapsto> duty_pubkey item)) xs
              (m(duty_slot x \<mapsto> duty_pubkey x)) (duty_slot d) = Some (duty_pubkey d)"
      by (simp only: d'(2) same)
    then show ?thesis
      by (simp only: unfold)
  next
    case False
    then have dx: "d = x" using Cons.prems(2) by auto
    have "fold (\<lambda>item p. p(duty_slot item \<mapsto> duty_pubkey item)) xs
              (m(duty_slot x \<mapsto> duty_pubkey x)) (duty_slot d)
            = (m(duty_slot x \<mapsto> duty_pubkey x)) (duty_slot d)"
      using False by (rule pubkeys_untouched)
    also have "\<dots> = Some (duty_pubkey d)"
      by (simp add: dx)
    finally show ?thesis
      by (simp only: unfold)
  qed
qed

text \<open>
  Claim C5. For the duties the probe of future block proposals passes, a list that is not
  empty with one proposer for each slot, every relay ending with a list or with
  RetryError: the check returns exactly the duties that no relay lists; it sends the
  requests of one call of \<open>__builder_validators\<close> to each relay, in order, whatever the
  number of duties, which is one request to each relay when no connection is refused; a
  relay that raised RetryError is reported on the console and contributes nothing.
\<close>

theorem unregistered_duties:
  assumes nonempty: "slot_proposals \<noteq> []"
    and one: "one_proposer_per_slot slot_proposals"
    and answers: "\<forall>url \<in> set urls. relay_answer http url = Raises RetryError
                                    \<or> (\<exists>js. relay_answer http url = Json js)"
  shows "\<exists>st'. check_validator_registration_for_slots http urls slot_proposals st
                 = Inr (filter (\<lambda>d. \<not> (\<exists>url \<in> set urls. relay_lists http url d))
                          slot_proposals, st')
           \<and> requests st' = requests st @ concat (map (relay_requests http) urls)
           \<and> ((\<forall>url \<in> set urls. builder_validators_get http url 0 \<noteq> Raises ConnectionError)
                \<longrightarrow> requests st' = requests st @ map BuilderValidatorsRequest urls)
           \<and> console st' = console st
               @ map CannotContactRelay
                   (filter (\<lambda>url. relay_answer http url = Raises RetryError) urls)"
proof -
  define registrations where
    "registrations = fold (\<lambda>item r. r(duty_slot item \<mapsto> False)) slot_proposals Map.empty"
  define pubkeys where
    "pubkeys = fold (\<lambda>item p. p(duty_slot item \<mapsto> duty_pubkey item)) slot_proposals Map.empty"
  from check_urls_result [OF answers, of pubkeys registrations st]
  obtain registrations' st' where
    run: "check_urls http urls pubkeys registrations st = Inr (registrations', st')"
    and regs: "\<forall>slot. registrations' slot =
                 map_option (\<lambda>b. b \<or> listed_for http pubkeys urls slot) (registrations slot)"
    and reqs: "requests st' = requests st @ concat (map (relay_requests http) urls)"
    and cons: "console st' = console st
                 @ map CannotContactRelay
                     (filter (\<lambda>url. relay_answer http url = Raises RetryError) urls)"
    by blast
  have one': "\<forall>d \<in> set slot_proposals. \<forall>d' \<in> set slot_proposals.
                duty_slot d = duty_slot d' \<longrightarrow> duty_pubkey d = duty_pubkey d'"
    using one by (simp only: one_proposer_per_slot_def)
  have key: "(registrations' (duty_slot d) = Some False)
               = (\<not> (\<exists>url \<in> set urls. relay_lists http url d))"
    if d: "d \<in> set slot_proposals" for d
  proof -
    have r: "registrations (duty_slot d) = Some False"
      using d by (simp add: registrations_def registrations_init)
    have p: "pubkeys (duty_slot d) = Some (duty_pubkey d)"
      unfolding pubkeys_def by (rule pubkeys_init [OF one' d])
    have "listed_for http pubkeys urls (duty_slot d)
            = (\<exists>url \<in> set urls. relay_lists http url d)"
      by (auto simp: listed_for_def relay_lists_def item_matches_def p
            split: response.splits)
    then show ?thesis
      using regs r by simp
  qed
  have same: "filter (\<lambda>item. registrations' (duty_slot item) = Some False) slot_proposals
          = filter (\<lambda>d. \<not> (\<exists>url \<in> set urls. relay_lists http url d)) slot_proposals"
    by (rule filter_cong) (simp_all add: key)
  have result: "check_validator_registration_for_slots http urls slot_proposals st
          = Inr (filter (\<lambda>item. registrations' (duty_slot item) = Some False) slot_proposals,
                 st')"
    unfolding check_validator_registration_for_slots_def Let_def
      registrations_def [symmetric] pubkeys_def [symmetric]
    using nonempty by (simp add: run)
  have single: "concat (map (relay_requests http) us) = map BuilderValidatorsRequest us"
    if "\<forall>url \<in> set us. builder_validators_get http url 0 \<noteq> Raises ConnectionError" for us
    using that by (induction us) (simp_all add: relay_requests_def final_trial_first)
  show ?thesis
    using result same reqs cons single by auto
qed

text \<open>
  With no duty the check returns at once, no relay being queried; and a relay that ends
  with an exception other than RetryError, the relays before it ending with a list or with
  RetryError, ends the check with that exception.
\<close>

lemma registration_check_no_duty:
  "check_validator_registration_for_slots http urls [] st = Inr ([], st)"
  by (simp add: check_validator_registration_for_slots_def)

lemma check_urls_append:
  "check_urls http (xs @ ys) pubkeys registrations st =
     (case check_urls http xs pubkeys registrations st of
        Inl e \<Rightarrow> Inl e
      | Inr (registrations', st') \<Rightarrow> check_urls http ys pubkeys registrations' st')"
  by (induction xs arbitrary: registrations st)
     (simp_all split: prod.splits sum.splits)

lemma registration_check_aborts:
  assumes "slot_proposals \<noteq> []"
    and "\<forall>u \<in> set before. relay_answer http u = Raises RetryError
                            \<or> (\<exists>js. relay_answer http u = Json js)"
    and "relay_answer http url = Raises e"
    and "e \<noteq> RetryError"
  shows "check_validator_registration_for_slots http (before @ url # after) slot_proposals st
           = Inl e"
proof -
  define registrations where
    "registrations = fold (\<lambda>item r. r(duty_slot item \<mapsto> False)) slot_proposals Map.empty"
  define pubkeys where
    "pubkeys = fold (\<lambda>item p. p(duty_slot item \<mapsto> duty_pubkey item)) slot_proposals Map.empty"
  from check_urls_result [OF assms(2), of pubkeys registrations st]
  obtain registrations' st' where
    "check_urls http before pubkeys registrations st = Inr (registrations', st')"
    by blast
  then have "check_urls http (before @ url # after) pubkeys registrations st = Inl e"
    using assms(3,4) by (simp add: check_urls_append builder_validators_answer)
  then show ?thesis
    unfolding check_validator_registration_for_slots_def Let_def
      registrations_def [symmetric] pubkeys_def [symmetric]
    using assms(1) by simp
qed

lemma urls_differ: "unlisted_url \<noteq> flashbots_url"
  by (simp add: unlisted_url_def flashbots_url_def)

text \<open>
  Two duties of validator \<open>P\<close>; the first relay refuses a connection and then lists the
  duty of slot 170, the second relay exhausts its retries.
\<close>

theorem unregistered_duties_witness:
  "[duty_170, duty_175] \<noteq> []
   \<and> duty_slot duty_170 \<noteq> duty_slot duty_175
   \<and> relay_answer http_registering flashbots_url
       = Json [\<lparr>rbv_slot = 170, rbv_validator_index = 42, rbv_pubkey = P\<rparr>]
   \<and> relay_answer http_registering unlisted_url = Raises RetryError
   \<and> (\<exists>st'. check_validator_registration_for_slots http_registering
                 [flashbots_url, unlisted_url] [duty_170, duty_175] initial_state
               = Inr ([duty_175], st')
          \<and> requests st' = [BuilderValidatorsRequest flashbots_url,
                             BuilderValidatorsRequest flashbots_url,
                             BuilderValidatorsRequest unlisted_url]
          \<and> console st' = [CannotContactRelay unlisted_url])
   \<and> builder_validators_get http_registering unlisted_url 0 \<noteq> Raises ConnectionError
   \<and> (\<exists>st'. check_validator_registration_for_slots http_registering
                 [unlisted_url] [duty_170, duty_175] initial_state
               = Inr ([duty_170, duty_175], st')
          \<and> requests st' = [BuilderValidatorsRequest unlisted_url]
          \<and> console st' = [CannotContactRelay unlisted_url])"
proof -
  have h1: "[duty_170, duty_175] \<noteq> []" by simp
  have h2: "one_proposer_per_slot [duty_170, duty_175]"
    by (simp add: one_proposer_per_slot_def duty_170_def duty_175_def)
  have trial_f: "final_trial http_registering flashbots_url = 1"
    by (simp add: final_trial_def MAX_TRIALS_def upt_conv_Cons http_registering_def)
  have trial_u: "final_trial http_registering unlisted_url = 0"
    by (simp add: final_trial_def MAX_TRIALS_def upt_conv_Cons http_registering_def
          urls_differ)
  have answers: "relay_answer http_registering flashbots_url
       = Json [\<lparr>rbv_slot = 170, rbv_validator_index = 42, rbv_pubkey = P\<rparr>]"
    "relay_answer http_registering unlisted_url = Raises RetryError"
    unfolding relay_answer_def trial_f trial_u
    by (simp_all add: http_registering_def urls_differ)
  have h3: "\<forall>url \<in> set [flashbots_url, unlisted_url].
              relay_answer http_registering url = Raises RetryError
              \<or> (\<exists>js. relay_answer http_registering url = Json js)"
    by (simp add: answers)
  have u3: "\<forall>url \<in> set [unlisted_url].
              relay_answer http_registering url = Raises RetryError
              \<or> (\<exists>js. relay_answer http_registering url = Json js)"
    by (simp add: answers)
  have keep: "filter (\<lambda>d. \<not> (\<exists>url \<in> set [flashbots_url, unlisted_url].
                                relay_lists http_registering url d))
                [duty_170, duty_175] = [duty_175]"
    by (simp add: relay_lists_def answers duty_170_def duty_175_def)
  have keep_u: "filter (\<lambda>d. \<not> (\<exists>url \<in> set [unlisted_url].
                                relay_lists http_registering url d))
                [duty_170, duty_175] = [duty_170, duty_175]"
    by (simp add: relay_lists_def answers)
  have retry: "filter (\<lambda>url. relay_answer http_registering url = Raises RetryError)
                 [flashbots_url, unlisted_url] = [unlisted_url]"
    by (simp add: answers)
  have retry_u: "filter (\<lambda>url. relay_answer http_registering url = Raises RetryError)
                 [unlisted_url] = [unlisted_url]"
    by (simp add: answers)
  have sent: "concat (map (relay_requests http_registering) [flashbots_url, unlisted_url])
                = [BuilderValidatorsRequest flashbots_url,
                   BuilderValidatorsRequest flashbots_url,
                   BuilderValidatorsRequest unlisted_url]"
    by (simp add: relay_requests_def trial_f trial_u)
  have sent_u: "concat (map (relay_requests http_registering) [unlisted_url])
                = [BuilderValidatorsRequest unlisted_url]"
    by (simp add: relay_requests_def trial_u)
  have first_u: "builder_validators_get http_registering unlisted_url 0
                   \<noteq> Raises ConnectionError"
    by (simp add: http_registering_def urls_differ)
  note main = unregistered_duties [OF h1 h2 h3, of initial_state,
      unfolded keep retry sent]
  note single = unregistered_duties [OF h1 h2 u3, of initial_state,
      unfolded keep_u retry_u sent_u]
  have start: "requests initial_state = []" "console initial_state = []"
    by (simp_all add: initial_state_def)
  have slots: "duty_slot duty_170 \<noteq> duty_slot duty_175"
    by (simp add: duty_170_def duty_175_def)
  have two: "\<exists>st'. check_validator_registration_for_slots http_registering
                 [flashbots_url, unlisted_url] [duty_170, duty_175] initial_state
               = Inr ([duty_175], st')
          \<and> requests st' = [BuilderValidatorsRequest flashbots_url,
                             BuilderValidatorsRequest flashbots_url,
                             BuilderValidatorsRequest unlisted_url]
          \<and> console st' = [CannotContactRelay unlisted_url]"
    using main by (auto simp: start)
  have one: "\<exists>st'. check_validator_registration_for_slots http_registering
                 [unlisted_url] [duty_170, duty_175] initial_state
               = Inr ([duty_170, duty_175], st')
          \<and> requests st' = [BuilderValidatorsRequest unlisted_url]
          \<and> console st' = [CannotContactRelay unlisted_url]"
    using single by (auto simp: start)
  show ?thesis
    using slots answers first_u two one by simp
qed

section \<open>The two passes of the rewards probe\<close>

lemma net_items_filter:
  "net_items i2v ideal actual
     = map (item_of ideal actual) (filter (passes_guard ideal actual) i2v)"
proof (induction i2v)
  case Nil
  then show ?case by simp
next
  case (Cons x xs)
  obtain i v where x: "x = (i, v)" by (cases x)
  show ?case
    using Cons.IH
    by (cases "actual i"; cases "ideal (effective_balance v)")
       (auto simp: x passes_guard_def item_of_def)
qed

lemma our_items_Inr_iff:
  "(\<exists>items. our_items i2v ideal actual = Inr items)
     \<longleftrightarrow> (\<forall>x \<in> set i2v. passes_guard ideal actual x)"
proof (induction i2v)
  case Nil
  then show ?case by simp
next
  case (Cons x xs)
  obtain i v where x: "x = (i, v)" by (cases x)
  show ?case
    using Cons.IH
    by (cases "actual i"; cases "ideal (effective_balance v)";
        cases "our_items xs ideal actual")
       (auto simp: x passes_guard_def)
qed

lemma our_items_Inl:
  "our_items i2v ideal actual = Inl e \<Longrightarrow> e = KeyError"
proof (induction i2v)
  case Nil
  then show ?case by simp
next
  case (Cons x xs)
  obtain i v where x: "x = (i, v)" by (cases x)
  show ?case
    using Cons
    by (cases "actual i"; cases "ideal (effective_balance v)";
        cases "our_items xs ideal actual")
       (auto simp: x)
qed

lemma our_items_Inr:
  "our_items i2v ideal actual = Inr items \<Longrightarrow> items = map (item_of ideal actual) i2v"
proof (induction i2v arbitrary: items)
  case Nil
  then show ?case by simp
next
  case (Cons x xs)
  obtain i v where x: "x = (i, v)" by (cases x)
  show ?case
    using Cons
    by (cases "actual i"; cases "ideal (effective_balance v)";
        cases "our_items xs ideal actual")
       (auto simp: x item_of_def)
qed

lemma totals_of_items:
  "sum_list (map (\<lambda>(s, t, h). s) (map (\<lambda>(pk, ideal, actual, ideals). ideal) items))
     = sum_list (map (\<lambda>(pk, (s, t, h), actual, ideals). s) items)"
  "sum_list (map (\<lambda>(s, t, h). t) (map (\<lambda>(pk, ideal, actual, ideals). ideal) items))
     = sum_list (map (\<lambda>(pk, (s, t, h), actual, ideals). t) items)"
  "sum_list (map (\<lambda>(s, t, h). h) (map (\<lambda>(pk, ideal, actual, ideals). ideal) items))
     = sum_list (map (\<lambda>(pk, (s, t, h), actual, ideals). h) items)"
  "sum_list (map (\<lambda>(s, t, h). h) (map (\<lambda>(pk, ideal, actual, ideals). actual) items))
     = sum_list (map (\<lambda>(pk, ideal, (s, t, h), ideals). h) items)"
  by (induction items) (auto split: prod.splits)

lemma emit_aggregates_Inr_iff:
  "(\<exists>m'. emit_aggregates items m = Inr m') \<longleftrightarrow> items \<noteq> [] \<and> totals_not_negative items"
  by (auto simp: emit_aggregates_def Let_def totals_not_negative_def
        totals_of_items [unfolded map_map])

lemma emit_aggregates_Inl:
  "emit_aggregates items m = Inl e \<Longrightarrow> e = ValueError"
  by (auto simp: emit_aggregates_def Let_def split: if_splits)

lemma emit_aggregates_ValueError:
  "items = [] \<or> \<not> totals_not_negative items \<Longrightarrow> emit_aggregates items m = Inl ValueError"
proof (cases "emit_aggregates items m")
  case (Inl e)
  then show ?thesis using emit_aggregates_Inl by blast
next
  case (Inr m')
  assume "items = [] \<or> \<not> totals_not_negative items"
  with Inr show ?thesis using emit_aggregates_Inr_iff by blast
qed

lemma rewards_passes_lookups:
  "net_items i2v ideal actual
     = map (item_of ideal actual) (filter (passes_guard ideal actual) i2v)
   \<and> ((\<exists>m'. emit_aggregates (net_items i2v ideal actual) m = Inr m')
        \<longleftrightarrow> (\<exists>x \<in> set i2v. passes_guard ideal actual x)
            \<and> totals_not_negative (net_items i2v ideal actual))
   \<and> ((\<forall>x \<in> set i2v. \<not> passes_guard ideal actual x)
        \<or> \<not> totals_not_negative (net_items i2v ideal actual)
        \<longrightarrow> emit_aggregates (net_items i2v ideal actual) m = Inl ValueError)
   \<and> ((\<exists>items. our_items i2v ideal actual = Inr items)
        \<longleftrightarrow> (\<forall>x \<in> set i2v. passes_guard ideal actual x))
   \<and> ((\<forall>x \<in> set i2v. passes_guard ideal actual x)
        \<longrightarrow> our_items i2v ideal actual = Inr (map (item_of ideal actual) i2v))
   \<and> ((\<exists>x \<in> set i2v. \<not> passes_guard ideal actual x)
        \<longrightarrow> our_items i2v ideal actual = Inl KeyError)"
proof (intro conjI impI)
  show "net_items i2v ideal actual
          = map (item_of ideal actual) (filter (passes_guard ideal actual) i2v)"
    by (rule net_items_filter)
  have empty_iff: "net_items i2v ideal actual = []
                     \<longleftrightarrow> (\<forall>x \<in> set i2v. \<not> passes_guard ideal actual x)"
    by (simp add: net_items_filter filter_empty_conv)
  show "(\<exists>m'. emit_aggregates (net_items i2v ideal actual) m = Inr m')
          \<longleftrightarrow> (\<exists>x \<in> set i2v. passes_guard ideal actual x)
              \<and> totals_not_negative (net_items i2v ideal actual)"
    unfolding emit_aggregates_Inr_iff empty_iff by blast
  show "emit_aggregates (net_items i2v ideal actual) m = Inl ValueError"
    if "(\<forall>x \<in> set i2v. \<not> passes_guard ideal actual x)
        \<or> \<not> totals_not_negative (net_items i2v ideal actual)"
    using that empty_iff emit_aggregates_ValueError by blast
  show "(\<exists>items. our_items i2v ideal actual = Inr items)
          \<longleftrightarrow> (\<forall>x \<in> set i2v. passes_guard ideal actual x)"
    by (rule our_items_Inr_iff)
  show "our_items i2v ideal actual = Inr (map (item_of ideal actual) i2v)"
    if "\<forall>x \<in> set i2v. passes_guard ideal actual x"
  proof -
    from that obtain items where "our_items i2v ideal actual = Inr items"
      using our_items_Inr_iff by blast
    then show ?thesis
      using our_items_Inr by blast
  qed
  show "our_items i2v ideal actual = Inl KeyError"
    if "\<exists>x \<in> set i2v. \<not> passes_guard ideal actual x"
  proof (cases "our_items i2v ideal actual")
    case (Inl e)
    then show ?thesis using our_items_Inl by blast
  next
    case (Inr items)
    then have "\<forall>x \<in> set i2v. passes_guard ideal actual x"
      using our_items_Inr_iff by blast
    with that show ?thesis by blast
  qed
qed

lemma network_pass_refused:
  assumes "2 \<le> epoch"
    and "window_for_rewards net_window epoch = Inr net_index_to_validator"
    and "net_index_to_validator \<noteq> []"
    and "get_rewards beacon beacon_type (epoch - 2) None = Inr data"
    and "(\<forall>x \<in> set net_index_to_validator.
            \<not> passes_guard (effective_balance_to_ideal_reward_of data)
                  (index_to_actual_reward_of data) x)
         \<or> \<not> totals_not_negative
                 (net_items net_index_to_validator (effective_balance_to_ideal_reward_of data)
                    (index_to_actual_reward_of data))"
  shows "process_rewards beacon beacon_type epoch net_window our_window our_labels st
           = Inl ValueError"
proof -
  have "emit_aggregates
          (net_items net_index_to_validator (effective_balance_to_ideal_reward_of data)
             (index_to_actual_reward_of data)) m = Inl ValueError" for m
    using assms(5) rewards_passes_lookups by blast
  then show ?thesis
    using assms(1-4) by (simp add: process_rewards_def bindE_def Let_def)
qed

lemma network_pass_completes:
  assumes "2 \<le> epoch"
    and "window_for_rewards net_window epoch = Inr net_index_to_validator"
    and "net_index_to_validator \<noteq> []"
    and "get_rewards beacon beacon_type (epoch - 2) None = Inr data"
    and "(\<exists>x \<in> set net_index_to_validator.
            passes_guard (effective_balance_to_ideal_reward_of data)
              (index_to_actual_reward_of data) x)
         \<and> totals_not_negative
               (net_items net_index_to_validator (effective_balance_to_ideal_reward_of data)
                  (index_to_actual_reward_of data))"
  shows "\<exists>m. emit_aggregates
               (net_items net_index_to_validator (effective_balance_to_ideal_reward_of data)
                  (index_to_actual_reward_of data))
               (metric_net st) = Inr m
           \<and> process_rewards beacon beacon_type epoch net_window our_window our_labels st
               = our_pass beacon beacon_type epoch our_window our_labels
                   (st\<lparr>requests := requests st
                          @ [RewardsRequest beacon_type (epoch - 2) None],
                       metric_net := m\<rparr>)"
proof -
  from assms(5) obtain m where
    m: "emit_aggregates
       (net_items net_index_to_validator (effective_balance_to_ideal_reward_of data)
          (index_to_actual_reward_of data))
       (metric_net st) = Inr m"
    using rewards_passes_lookups by blast
  then have "process_rewards beacon beacon_type epoch net_window our_window our_labels st
           = our_pass beacon beacon_type epoch our_window our_labels
               (st\<lparr>requests := requests st @ [RewardsRequest beacon_type (epoch - 2) None],
                   metric_net := m\<rparr>)"
    using assms(1-4) by (simp add: process_rewards_def bindE_def Let_def)
  with m show ?thesis by blast
qed

lemma our_pass_missing_row:
  assumes "window_for_rewards our_window epoch = Inr our_index_to_validator"
    and "our_index_to_validator \<noteq> []"
    and "get_rewards beacon beacon_type (epoch - 2)
           (Some (remdups (map fst our_index_to_validator))) = Inr data"
    and "\<exists>x \<in> set our_index_to_validator.
           \<not> passes_guard (effective_balance_to_ideal_reward_of data)
                 (index_to_actual_reward_of data) x"
  shows "our_pass beacon beacon_type epoch our_window our_labels st = Inl KeyError"
proof -
  have "our_items our_index_to_validator (effective_balance_to_ideal_reward_of data)
          (index_to_actual_reward_of data) = Inl KeyError"
    using assms(4) rewards_passes_lookups by blast
  then show ?thesis
    using assms(1-3) by (simp add: our_pass_def bindE_def Let_def)
qed

text \<open>
  Claim C10 against the code, at an epoch from 2 on with a network snapshot that is not
  empty and a rewards response. The list comprehension of the network pass keeps exactly
  the validators that pass the guard, and reads the two rows of those only. The network
  pass completes, and the watched-set pass starts, when some validator passes the guard and
  none of the four totals passed to \<open>inc\<close> as they are is negative. It raises ValueError
  otherwise: when no validator passes the guard, \<open>items\<close> is empty and unpacking
  \<open>zip(*items)\<close> fails; when one of those totals is negative, the counter refuses it. So
  the network pass is not total. The watched-set pass raises KeyError as soon as one
  watched validator lacks one of its two rows.
\<close>

theorem rewards_passes:
  assumes epoch: "2 \<le> epoch"
    and net: "window_for_rewards net_window epoch = Inr net_index_to_validator"
    and nonempty: "net_index_to_validator \<noteq> []"
    and data: "get_rewards beacon beacon_type (epoch - 2) None = Inr data"
  shows "net_items net_index_to_validator (effective_balance_to_ideal_reward_of data)
           (index_to_actual_reward_of data)
         = map (item_of (effective_balance_to_ideal_reward_of data)
                  (index_to_actual_reward_of data))
             (filter (passes_guard (effective_balance_to_ideal_reward_of data)
                        (index_to_actual_reward_of data))
                net_index_to_validator)
       \<and> ((\<exists>x \<in> set net_index_to_validator.
               passes_guard (effective_balance_to_ideal_reward_of data)
                 (index_to_actual_reward_of data) x)
            \<and> totals_not_negative
                 (net_items net_index_to_validator (effective_balance_to_ideal_reward_of data)
                    (index_to_actual_reward_of data)) \<longrightarrow>
            (\<exists>m. emit_aggregates
                    (net_items net_index_to_validator
                       (effective_balance_to_ideal_reward_of data)
                       (index_to_actual_reward_of data))
                    (metric_net st) = Inr m
                \<and> process_rewards beacon beacon_type epoch net_window our_window our_labels st
                    = our_pass beacon beacon_type epoch our_window our_labels
                        (st\<lparr>requests := requests st
                               @ [RewardsRequest beacon_type (epoch - 2) None],
                            metric_net := m\<rparr>)))
       \<and> ((\<forall>x \<in> set net_index_to_validator.
               \<not> passes_guard (effective_balance_to_ideal_reward_of data)
                     (index_to_actual_reward_of data) x)
            \<or> \<not> totals_not_negative
                    (net_items net_index_to_validator
                       (effective_balance_to_ideal_reward_of data)
                       (index_to_actual_reward_of data)) \<longrightarrow>
            process_rewards beacon beacon_type epoch net_window our_window our_labels st
              = Inl ValueError)
       \<and> (\<forall>our_index_to_validator our_data st1.
             window_for_rewards our_window epoch = Inr our_index_to_validator
             \<and> our_index_to_validator \<noteq> []
             \<and> get_rewards beacon beacon_type (epoch - 2)
                  (Some (remdups (map fst our_index_to_validator))) = Inr our_data
             \<and> (\<exists>x \<in> set our_index_to_validator.
                   \<not> passes_guard (effective_balance_to_ideal_reward_of our_data)
                         (index_to_actual_reward_of our_data) x) \<longrightarrow>
             our_pass beacon beacon_type epoch our_window our_labels st1 = Inl KeyError)"
proof (intro conjI impI allI)
  show "net_items net_index_to_validator (effective_balance_to_ideal_reward_of data)
           (index_to_actual_reward_of data)
         = map (item_of (effective_balance_to_ideal_reward_of data)
                  (index_to_actual_reward_of data))
             (filter (passes_guard (effective_balance_to_ideal_reward_of data)
                        (index_to_actual_reward_of data))
                net_index_to_validator)"
    by (rule net_items_filter)
next
  assume "(\<exists>x \<in> set net_index_to_validator.
               passes_guard (effective_balance_to_ideal_reward_of data)
                 (index_to_actual_reward_of data) x)
            \<and> totals_not_negative
                 (net_items net_index_to_validator (effective_balance_to_ideal_reward_of data)
                    (index_to_actual_reward_of data))"
  from network_pass_completes [OF epoch net nonempty data this]
  show "\<exists>m. emit_aggregates
                    (net_items net_index_to_validator
                       (effective_balance_to_ideal_reward_of data)
                       (index_to_actual_reward_of data))
                    (metric_net st) = Inr m
                \<and> process_rewards beacon beacon_type epoch net_window our_window our_labels st
                    = our_pass beacon beacon_type epoch our_window our_labels
                        (st\<lparr>requests := requests st
                               @ [RewardsRequest beacon_type (epoch - 2) None],
                            metric_net := m\<rparr>)" .
next
  assume "(\<forall>x \<in> set net_index_to_validator.
               \<not> passes_guard (effective_balance_to_ideal_reward_of data)
                     (index_to_actual_reward_of data) x)
            \<or> \<not> totals_not_negative
                    (net_items net_index_to_validator
                       (effective_balance_to_ideal_reward_of data)
                       (index_to_actual_reward_of data))"
  from network_pass_refused [OF epoch net nonempty data this]
  show "process_rewards beacon beacon_type epoch net_window our_window our_labels st
              = Inl ValueError" .
next
  fix our_index_to_validator our_data st1
  assume "window_for_rewards our_window epoch = Inr our_index_to_validator
             \<and> our_index_to_validator \<noteq> []
             \<and> get_rewards beacon beacon_type (epoch - 2)
                  (Some (remdups (map fst our_index_to_validator))) = Inr our_data
             \<and> (\<exists>x \<in> set our_index_to_validator.
                   \<not> passes_guard (effective_balance_to_ideal_reward_of our_data)
                         (index_to_actual_reward_of our_data) x)"
  then show "our_pass beacon beacon_type epoch our_window our_labels st1 = Inl KeyError"
    using our_pass_missing_row by blast
qed

text \<open>
  A rewards response without rows: validator 42 is skipped, and the probe ends with
  ValueError. A response that gives validator 42 a negative head reward: the probe ends
  with ValueError. A response with the rows of validator 42 only, validator 43 being the
  watched one: the network pass completes and the watched-set pass ends with KeyError.
\<close>

theorem rewards_passes_witness:
  "(2::int) \<le> 2
   \<and> window_for_rewards window_42 2 = Inr [(42, validator_42)]
   \<and> [(42, validator_42)] \<noteq> []
   \<and> get_rewards beacon_42_dead OTHER (2 - 2) None = Inr \<lparr>ideal_rewards = [], total_rewards = []\<rparr>
   \<and> passes_guard (effective_balance_to_ideal_reward_of \<lparr>ideal_rewards = [], total_rewards = []\<rparr>)
        (index_to_actual_reward_of \<lparr>ideal_rewards = [], total_rewards = []\<rparr>) (42, validator_42) = False
   \<and> process_rewards beacon_42_dead OTHER 2 window_42 window_42 [] initial_state
       = Inl ValueError
   \<and> get_rewards beacon_negative_head OTHER (2 - 2) None
       = Inr \<lparr>ideal_rewards =
              [\<lparr>ideal_effective_balance = 32000000000, ideal_source = 10,
                ideal_target = 20, ideal_head = 5\<rparr>],
            total_rewards =
              [\<lparr>total_validator_index = 42, total_source = 10, total_target = 20,
                total_head = - 5\<rparr>]\<rparr>
   \<and> \<not> totals_not_negative
        (net_items [(42, validator_42)]
           (effective_balance_to_ideal_reward_of
              \<lparr>ideal_rewards =
              [\<lparr>ideal_effective_balance = 32000000000, ideal_source = 10,
                ideal_target = 20, ideal_head = 5\<rparr>],
            total_rewards =
              [\<lparr>total_validator_index = 42, total_source = 10, total_target = 20,
                total_head = - 5\<rparr>]\<rparr>)
           (index_to_actual_reward_of
              \<lparr>ideal_rewards =
              [\<lparr>ideal_effective_balance = 32000000000, ideal_source = 10,
                ideal_target = 20, ideal_head = 5\<rparr>],
            total_rewards =
              [\<lparr>total_validator_index = 42, total_source = 10, total_target = 20,
                total_head = - 5\<rparr>]\<rparr>))
   \<and> process_rewards beacon_negative_head OTHER 2 window_42 window_42 [] initial_state
       = Inl ValueError
   \<and> get_rewards beacon_rewards_42 OTHER (2 - 2) None
       = Inr \<lparr>ideal_rewards =
              [\<lparr>ideal_effective_balance = 32000000000, ideal_source = 10,
                ideal_target = 20, ideal_head = 5\<rparr>],
            total_rewards =
              [\<lparr>total_validator_index = 42, total_source = 10, total_target = 20,
                total_head = 5\<rparr>]\<rparr>
   \<and> passes_guard
        (effective_balance_to_ideal_reward_of
           \<lparr>ideal_rewards =
              [\<lparr>ideal_effective_balance = 32000000000, ideal_source = 10,
                ideal_target = 20, ideal_head = 5\<rparr>],
            total_rewards =
              [\<lparr>total_validator_index = 42, total_source = 10, total_target = 20,
                total_head = 5\<rparr>]\<rparr>)
        (index_to_actual_reward_of
           \<lparr>ideal_rewards =
              [\<lparr>ideal_effective_balance = 32000000000, ideal_source = 10,
                ideal_target = 20, ideal_head = 5\<rparr>],
            total_rewards =
              [\<lparr>total_validator_index = 42, total_source = 10, total_target = 20,
                total_head = 5\<rparr>]\<rparr>)
        (42, validator_42)
   \<and> totals_not_negative
        (net_items [(42, validator_42)]
           (effective_balance_to_ideal_reward_of
              \<lparr>ideal_rewards =
              [\<lparr>ideal_effective_balance = 32000000000, ideal_source = 10,
                ideal_target = 20, ideal_head = 5\<rparr>],
            total_rewards =
              [\<lparr>total_validator_index = 42, total_source = 10, total_target = 20,
                total_head = 5\<rparr>]\<rparr>)
           (index_to_actual_reward_of
              \<lparr>ideal_rewards =
              [\<lparr>ideal_effective_balance = 32000000000, ideal_source = 10,
                ideal_target = 20, ideal_head = 5\<rparr>],
            total_rewards =
              [\<lparr>total_validator_index = 42, total_source = 10, total_target = 20,
                total_head = 5\<rparr>]\<rparr>))
   \<and> window_for_rewards window_43 2 = Inr [(43, validator_43)]
   \<and> process_rewards beacon_rewards_42 OTHER 2 window_42 window_43 [] initial_state
       = Inl KeyError"
proof -
  have h1: "(2::int) \<le> 2" by simp
  have h2: "window_for_rewards window_42 2 = Inr [(42, validator_42)]"
    by (simp add: window_for_rewards_def window_42_def)
  have h3: "[(42, validator_42)] \<noteq> []" by simp
  have h4: "get_rewards beacon_42_dead OTHER (2 - 2) None = Inr \<lparr>ideal_rewards = [], total_rewards = []\<rparr>"
    by (simp add: beacon_42_dead_def)
  have n4: "get_rewards beacon_negative_head OTHER (2 - 2) None
              = Inr \<lparr>ideal_rewards =
              [\<lparr>ideal_effective_balance = 32000000000, ideal_source = 10,
                ideal_target = 20, ideal_head = 5\<rparr>],
            total_rewards =
              [\<lparr>total_validator_index = 42, total_source = 10, total_target = 20,
                total_head = - 5\<rparr>]\<rparr>"
    by (simp add: beacon_negative_head_def)
  have k4: "get_rewards beacon_rewards_42 OTHER (2 - 2) None
              = Inr \<lparr>ideal_rewards =
              [\<lparr>ideal_effective_balance = 32000000000, ideal_source = 10,
                ideal_target = 20, ideal_head = 5\<rparr>],
            total_rewards =
              [\<lparr>total_validator_index = 42, total_source = 10, total_target = 20,
                total_head = 5\<rparr>]\<rparr>"
    by (simp add: beacon_rewards_42_def)
  have w43: "window_for_rewards window_43 2 = Inr [(43, validator_43)]"
    by (simp add: window_for_rewards_def window_43_def)
  have skipped: "passes_guard (effective_balance_to_ideal_reward_of \<lparr>ideal_rewards = [], total_rewards = []\<rparr>)
        (index_to_actual_reward_of \<lparr>ideal_rewards = [], total_rewards = []\<rparr>) (42, validator_42) = False"
    by (simp add: passes_guard_def index_to_actual_reward_of_def dict_of_def)
  have negative: "\<not> totals_not_negative
        (net_items [(42, validator_42)]
           (effective_balance_to_ideal_reward_of
              \<lparr>ideal_rewards =
              [\<lparr>ideal_effective_balance = 32000000000, ideal_source = 10,
                ideal_target = 20, ideal_head = 5\<rparr>],
            total_rewards =
              [\<lparr>total_validator_index = 42, total_source = 10, total_target = 20,
                total_head = - 5\<rparr>]\<rparr>)
           (index_to_actual_reward_of
              \<lparr>ideal_rewards =
              [\<lparr>ideal_effective_balance = 32000000000, ideal_source = 10,
                ideal_target = 20, ideal_head = 5\<rparr>],
            total_rewards =
              [\<lparr>total_validator_index = 42, total_source = 10, total_target = 20,
                total_head = - 5\<rparr>]\<rparr>))"
    by (simp add: totals_not_negative_def index_to_actual_reward_of_def
          effective_balance_to_ideal_reward_of_def dict_of_def validator_42_def
          process_validator_def)
  have kept: "passes_guard
        (effective_balance_to_ideal_reward_of
           \<lparr>ideal_rewards =
              [\<lparr>ideal_effective_balance = 32000000000, ideal_source = 10,
                ideal_target = 20, ideal_head = 5\<rparr>],
            total_rewards =
              [\<lparr>total_validator_index = 42, total_source = 10, total_target = 20,
                total_head = 5\<rparr>]\<rparr>)
        (index_to_actual_reward_of
           \<lparr>ideal_rewards =
              [\<lparr>ideal_effective_balance = 32000000000, ideal_source = 10,
                ideal_target = 20, ideal_head = 5\<rparr>],
            total_rewards =
              [\<lparr>total_validator_index = 42, total_source = 10, total_target = 20,
                total_head = 5\<rparr>]\<rparr>)
        (42, validator_42)"
    by (simp add: passes_guard_def index_to_actual_reward_of_def
          effective_balance_to_ideal_reward_of_def dict_of_def validator_42_def)
  have accepted: "totals_not_negative
        (net_items [(42, validator_42)]
           (effective_balance_to_ideal_reward_of
              \<lparr>ideal_rewards =
              [\<lparr>ideal_effective_balance = 32000000000, ideal_source = 10,
                ideal_target = 20, ideal_head = 5\<rparr>],
            total_rewards =
              [\<lparr>total_validator_index = 42, total_source = 10, total_target = 20,
                total_head = 5\<rparr>]\<rparr>)
           (index_to_actual_reward_of
              \<lparr>ideal_rewards =
              [\<lparr>ideal_effective_balance = 32000000000, ideal_source = 10,
                ideal_target = 20, ideal_head = 5\<rparr>],
            total_rewards =
              [\<lparr>total_validator_index = 42, total_source = 10, total_target = 20,
                total_head = 5\<rparr>]\<rparr>))"
    by (simp add: totals_not_negative_def index_to_actual_reward_of_def
          effective_balance_to_ideal_reward_of_def dict_of_def validator_42_def
          process_validator_def)
  have missing: "\<not> passes_guard
        (effective_balance_to_ideal_reward_of
           \<lparr>ideal_rewards =
              [\<lparr>ideal_effective_balance = 32000000000, ideal_source = 10,
                ideal_target = 20, ideal_head = 5\<rparr>],
            total_rewards =
              [\<lparr>total_validator_index = 42, total_source = 10, total_target = 20,
                total_head = 5\<rparr>]\<rparr>)
        (index_to_actual_reward_of
           \<lparr>ideal_rewards =
              [\<lparr>ideal_effective_balance = 32000000000, ideal_source = 10,
                ideal_target = 20, ideal_head = 5\<rparr>],
            total_rewards =
              [\<lparr>total_validator_index = 42, total_source = 10, total_target = 20,
                total_head = 5\<rparr>]\<rparr>)
        (43, validator_43)"
    by (simp add: passes_guard_def index_to_actual_reward_of_def dict_of_def)
  have our_data: "get_rewards beacon_rewards_42 OTHER (2 - 2)
                    (Some (remdups (map fst [(43, validator_43)])))
              = Inr \<lparr>ideal_rewards =
              [\<lparr>ideal_effective_balance = 32000000000, ideal_source = 10,
                ideal_target = 20, ideal_head = 5\<rparr>],
            total_rewards =
              [\<lparr>total_validator_index = 42, total_source = 10, total_target = 20,
                total_head = 5\<rparr>]\<rparr>"
    by (simp add: beacon_rewards_42_def)
  note dead = rewards_passes [OF h1 h2 h3 h4, where our_window = window_42
      and our_labels = "[]" and st = initial_state]
  note refused = rewards_passes [OF h1 h2 h3 n4, where our_window = window_42
      and our_labels = "[]" and st = initial_state]
  note served = rewards_passes [OF h1 h2 h3 k4, where our_window = window_43
      and our_labels = "[]" and st = initial_state]
  have all_skipped: "process_rewards beacon_42_dead OTHER 2 window_42 window_42 []
                       initial_state = Inl ValueError"
    using dead skipped by simp
  have negative_head: "process_rewards beacon_negative_head OTHER 2 window_42 window_42 []
                       initial_state = Inl ValueError"
    using refused negative by blast
  from served kept accepted obtain m where
    goes_on: "process_rewards beacon_rewards_42 OTHER 2 window_42 window_43 [] initial_state
       = our_pass beacon_rewards_42 OTHER 2 window_43 []
           (initial_state\<lparr>requests := requests initial_state
                              @ [RewardsRequest OTHER (2 - 2) None],
                           metric_net := m\<rparr>)"
    by auto
  have "our_pass beacon_rewards_42 OTHER 2 window_43 []
           (initial_state\<lparr>requests := requests initial_state
                              @ [RewardsRequest OTHER (2 - 2) None],
                           metric_net := m\<rparr>) = Inl KeyError"
    using served w43 our_data missing by (meson list.set_intros(1) not_Cons_self2)
  with goes_on have watched: "process_rewards beacon_rewards_42 OTHER 2 window_42 window_43 []
                       initial_state = Inl KeyError"
    by simp
  show ?thesis
    using h2 h4 n4 k4 skipped all_skipped negative negative_head kept accepted w43 watched
    by simp
qed

end
